theory Spec2Isabelle
  imports
    Complex_Main
    "HOL-Library.Char_ord"
    "HOL-Library.List_Lexorder"
    "HOL-Library.Product_Lexorder"
begin

text \<open>
  A model of the two data-preparation functions of \<open>utils.py\<close>: \<open>prep_data\<close>, which
  selects the rows of the match day and of the same weekday in the weeks before it and
  numbers the weeks, and \<open>prep_data_stats\<close>, which turns that frame into the long frame
  of baseline and match-day values of one of two metrics. A data frame is the list of its
  rows, an exception is a value of the type \<open>error\<close>, and the calls into pandas, SciPy and
  the \<open>datetime\<close> module are modelled by what they compute on these frames.
\<close>

section \<open>Calendar arithmetic of the timestamps\<close>

text \<open>
  The column \<open>datetime\<close> of the data frames holds timestamps; \<open>match_date\<close> is a
  \<open>YYYY-MM-DD\<close> string that both \<open>strptime\<close> and the comparison on line 30 parse to a
  calendar date (midnight). The fields are the ones \<open>.dt.dayofweek\<close>,
  \<open>.dt.isocalendar().week\<close> and \<open>.dt.time\<close> read. Sub-second resolution is left out
  (the data is sampled at whole minutes).
\<close>

record date =
  year :: int
  month :: int
  day :: int

record timestamp = date +
  hour :: int
  minute :: int
  second :: int

text \<open>
  The proleptic Gregorian ordinal of a date, as the standard library's \<open>datetime\<close> module
  computes it (\<open>_is_leap\<close>, \<open>_days_before_year\<close>, \<open>_days_before_month\<close>, \<open>_ymd2ord\<close>).
  A timestamp always has a month in 1..12; the table is not read outside that range.
\<close>

definition is_leap :: "int \<Rightarrow> bool" where
  "is_leap y = (y mod 4 = 0 \<and> (y mod 100 \<noteq> 0 \<or> y mod 400 = 0))"

definition days_before_year :: "int \<Rightarrow> int" where
  "days_before_year y = (let p = y - 1 in p * 365 + p div 4 - p div 100 + p div 400)"

definition days_before_month :: "int \<Rightarrow> int \<Rightarrow> int" where
  "days_before_month y m =
     (if 1 \<le> m \<and> m \<le> 12
      then [0, 31, 59, 90, 120, 151, 181, 212, 243, 273, 304, 334] ! nat (m - 1)
           + (if m > 2 \<and> is_leap y then 1 else 0)
      else 0)"

definition ymd2ord :: "int \<Rightarrow> int \<Rightarrow> int \<Rightarrow> int" where
  "ymd2ord y m d = days_before_year y + days_before_month y m + d"

definition toordinal :: "'a date_scheme \<Rightarrow> int" where
  "toordinal dt = ymd2ord (year dt) (month dt) (day dt)"

text \<open>\<open>weekday()\<close> and \<open>.dt.dayofweek\<close>: Monday is 0, Sunday is 6.\<close>

definition weekday :: "'a date_scheme \<Rightarrow> int" where
  "weekday dt = (toordinal dt + 6) mod 7"

text \<open>
  The ISO 8601 week number, \<open>.dt.isocalendar().week\<close>: week 1 is the week (Monday to
  Sunday) that holds the year's first Thursday, so the first days of January can lie in
  week 52 or 53 of the year before, and the last days of December in week 1 of the next.
\<close>

definition isoweek1monday :: "int \<Rightarrow> int" where
  "isoweek1monday y =
     (let firstday = ymd2ord y 1 1;
          firstweekday = (firstday + 6) mod 7;
          week1monday = firstday - firstweekday
      in if firstweekday > 3 then week1monday + 7 else week1monday)"

definition isoweek :: "'a date_scheme \<Rightarrow> int" where
  "isoweek dt =
     (let y = year dt;
          today = toordinal dt;
          wk = (today - isoweek1monday y) div 7
      in if wk < 0 then (today - isoweek1monday (y - 1)) div 7 + 1
         else if wk \<ge> 52 \<and> today \<ge> isoweek1monday (y + 1) then 1
         else wk + 1)"

text \<open>
  The position of a timestamp on the time line, in seconds; a date used as a timestamp is
  its midnight. One day is 86400 seconds.
\<close>

definition timestamp_value :: "timestamp \<Rightarrow> int" where
  "timestamp_value t = toordinal t * 86400 + hour t * 3600 + minute t * 60 + second t"

definition midnight_value :: "date \<Rightarrow> int" where
  "midnight_value d = toordinal d * 86400"

text \<open>\<open>.dt.time\<close>: the time of day, compared and ordered field by field.\<close>

type_synonym time_of_day = "int \<times> int \<times> int"

definition time_of :: "timestamp \<Rightarrow> time_of_day" where
  "time_of t = (hour t, minute t, second t)"

section \<open>Floating-point values\<close>

text \<open>
  The \<open>occupancy\<close> column and everything computed from it are binary64 floats. They are
  modelled as exact rationals extended by the two infinities and NaN, which is also how
  a data frame writes a missing cell. Rounding and the sign of zero are not modelled: a
  result that the floats compute without rounding (a sum and a mean of small integers,
  a division by zero, any operation on NaN) is the same here.
\<close>

datatype fval = Fin rat | PInf | NInf | NaN

fun fneg :: "fval \<Rightarrow> fval" where
  "fneg (Fin a) = Fin (- a)"
| "fneg PInf = NInf"
| "fneg NInf = PInf"
| "fneg NaN = NaN"

fun fadd :: "fval \<Rightarrow> fval \<Rightarrow> fval" where
  "fadd NaN _ = NaN"
| "fadd _ NaN = NaN"
| "fadd (Fin a) (Fin b) = Fin (a + b)"
| "fadd PInf NInf = NaN"
| "fadd NInf PInf = NaN"
| "fadd PInf _ = PInf"
| "fadd NInf _ = NInf"
| "fadd _ PInf = PInf"
| "fadd _ NInf = NInf"

definition fsub :: "fval \<Rightarrow> fval \<Rightarrow> fval" where
  "fsub a b = fadd a (fneg b)"

text \<open>The sign of a value that is not NaN: an infinity with that sign.\<close>

fun signed_inf :: "bool \<Rightarrow> fval" where
  "signed_inf True = PInf"
| "signed_inf False = NInf"

fun fmul :: "fval \<Rightarrow> fval \<Rightarrow> fval" where
  "fmul NaN _ = NaN"
| "fmul _ NaN = NaN"
| "fmul (Fin a) (Fin b) = Fin (a * b)"
| "fmul (Fin a) PInf = (if a = 0 then NaN else signed_inf (a > 0))"
| "fmul (Fin a) NInf = (if a = 0 then NaN else signed_inf (a < 0))"
| "fmul PInf (Fin b) = (if b = 0 then NaN else signed_inf (b > 0))"
| "fmul NInf (Fin b) = (if b = 0 then NaN else signed_inf (b < 0))"
| "fmul PInf PInf = PInf"
| "fmul NInf NInf = PInf"
| "fmul PInf NInf = NInf"
| "fmul NInf PInf = NInf"

fun fdiv :: "fval \<Rightarrow> fval \<Rightarrow> fval" where
  "fdiv NaN _ = NaN"
| "fdiv _ NaN = NaN"
| "fdiv (Fin a) (Fin b) =
     (if b \<noteq> 0 then Fin (a / b)
      else if a = 0 then NaN
      else signed_inf (a > 0))"
| "fdiv (Fin a) PInf = Fin 0"
| "fdiv (Fin a) NInf = Fin 0"
| "fdiv PInf (Fin b) = signed_inf (b \<ge> 0)"
| "fdiv NInf (Fin b) = signed_inf (b < 0)"
| "fdiv PInf PInf = NaN"
| "fdiv PInf NInf = NaN"
| "fdiv NInf PInf = NaN"
| "fdiv NInf NInf = NaN"

text \<open>\<open>np.sum\<close>: the sum of an array, 0.0 when it is empty.\<close>

definition fsum :: "fval list \<Rightarrow> fval" where
  "fsum vs = foldl fadd (Fin 0) vs"

text \<open>
  \<open>.mean()\<close> of a series or of a row (\<open>skipna=True\<close>): the sum of the cells that are
  not NaN over their number, and NaN when there is none.
\<close>

definition pd_mean :: "fval list \<Rightarrow> fval" where
  "pd_mean vs =
     (let present = filter (\<lambda>v. v \<noteq> NaN) vs
      in if present = [] then NaN
         else fdiv (fsum present) (Fin (of_nat (length present))))"

section \<open>Data frames and exceptions\<close>

text \<open>
  A data frame is the list of its rows. The raw frame has the columns \<open>datetime\<close>,
  \<open>country\<close>, \<open>gym\<close> and \<open>occupancy\<close>; \<open>prep_data\<close> adds \<open>week\<close>.
\<close>

record raw_row =
  datetime :: timestamp
  country :: string
  gym :: string
  occupancy :: fval

record week_row = raw_row +
  week :: int

text \<open>The exceptions that the library calls of the two functions raise.\<close>

datatype error =
    TypeError_NA_ambiguous
  | ValueError_hour_range
  | ValueError_duplicate_entries
  | ValueError_length_mismatch

section \<open>prep_data\<close>

definition with_week :: "raw_row \<Rightarrow> int \<Rightarrow> week_row" where
  "with_week r w =
     \<lparr>datetime = datetime r, country = country r, gym = gym r,
      occupancy = occupancy r, week = w\<rparr>"

text \<open>Line 30: the rows with \<open>datetime - 1 day <= match_date\<close>.\<close>

definition date_filter :: "raw_row list \<Rightarrow> date \<Rightarrow> raw_row list" where
  "date_filter df_raw match_date =
     filter (\<lambda>r. timestamp_value (datetime r) - 86400 \<le> midnight_value match_date) df_raw"

text \<open>Lines 33 and 34: of those, the rows on the weekday of the match.\<close>

definition dow_filter :: "raw_row list \<Rightarrow> date \<Rightarrow> raw_row list" where
  "dow_filter df_raw match_date =
     (let dow = weekday match_date
      in filter (\<lambda>r. weekday (datetime r) = dow) (date_filter df_raw match_date))"

text \<open>
  Lines 37 to 43. The column of ISO weeks has a nullable integer type: on a frame with no
  row its \<open>min()\<close> and \<open>max()\<close> are \<open>NA\<close>, and \<open>if NA == 8\<close> raises TypeError
  (boolean value of NA is ambiguous).
\<close>

definition prep_data :: "raw_row list \<Rightarrow> date \<Rightarrow> error + week_row list" where
  "prep_data df_raw match_date =
     (let df = dow_filter df_raw match_date
      in if df = [] then Inl TypeError_NA_ambiguous
         else
           let lo = Min (set (map (\<lambda>r. isoweek (datetime r)) df));
               df = map (\<lambda>r. with_week r (isoweek (datetime r) - lo + 1)) df
           in if Max (set (map week df)) = 8
              then Inr (filter (\<lambda>r. week r > 0) (map (\<lambda>r. r\<lparr>week := week r - 1\<rparr>) df))
              else Inr df)"

section \<open>prep_data_stats\<close>

text \<open>
  \<open>df.pivot(index=..., columns="week", values="occupancy")\<close>: one row for each distinct
  index key and one column for each distinct week, both in ascending order; a cell holds
  the occupancy of the row of the frame with that key and week, and NaN when there is
  none. Two rows of the frame with the same key and week raise ValueError.
\<close>

definition cell :: "(week_row \<Rightarrow> 'k) \<Rightarrow> week_row list \<Rightarrow> 'k \<Rightarrow> int \<Rightarrow> fval" where
  "cell keyf df k w =
     (case filter (\<lambda>r. keyf r = k \<and> week r = w) df of
        [] \<Rightarrow> NaN
      | r # _ \<Rightarrow> occupancy r)"

definition pivot ::
  "(week_row \<Rightarrow> 'k::linorder) \<Rightarrow> week_row list \<Rightarrow> error + int list \<times> ('k \<times> fval list) list"
where
  "pivot keyf df =
     (if \<not> distinct (map (\<lambda>r. (keyf r, week r)) df) then Inl ValueError_duplicate_entries
      else
        let weeks = sort (remdups (map week df));
            keys = sort (remdups (map keyf df))
        in Inr (weeks, map (\<lambda>k. (k, map (cell keyf df k) weeks)) keys))"

text \<open>
  \<open>dfw.columns = [..., "w1", ..., "w7"]\<close> renames the columns by position, and raises
  ValueError unless the pivoted frame has exactly seven week columns. Then
  \<open>dfw["w1-6"] = dfw.iloc[:, n:-1].mean(axis=1)\<close> is the mean of \<open>w1\<close> to \<open>w6\<close>, all
  the week columns but the last. A wide row keeps its key, \<open>w1-6\<close> and \<open>w7\<close>.
\<close>

definition set_columns ::
  "int list \<times> ('k \<times> fval list) list \<Rightarrow> error + ('k \<times> fval \<times> fval) list"
where
  "set_columns p =
     (case p of (weeks, rows) \<Rightarrow>
        if length weeks \<noteq> 7 then Inl ValueError_length_mismatch
        else Inr (map (\<lambda>(k, cells). (k, pd_mean (butlast cells), last cells)) rows))"

text \<open>
  The \<open>if norm:\<close> block: the baselines are the means of \<open>w1-6\<close> over the rows of England
  and of Scotland; \<open>dfw["country"].map(baseline_map)\<close> is NaN for any other country.
\<close>

definition baseline_map :: "(string \<times> fval) list \<Rightarrow> string \<Rightarrow> fval" where
  "baseline_map cw c =
     (let eng_baseline = pd_mean (map snd (filter (\<lambda>(c', v). c' = ''England'') cw));
          sct_baseline = pd_mean (map snd (filter (\<lambda>(c', v). c' = ''Scotland'') cw))
      in if c = ''England'' then eng_baseline
         else if c = ''Scotland'' then sct_baseline
         else NaN)"

definition normalise ::
  "('k \<Rightarrow> string) \<Rightarrow> ('k \<times> fval \<times> fval) list \<Rightarrow> ('k \<times> fval \<times> fval) list"
where
  "normalise country_of rows =
     (let bm = baseline_map (map (\<lambda>(k, w16, w7). (country_of k, w16)) rows)
      in map (\<lambda>(k, w16, w7). (k, fdiv w16 (bm (country_of k)), fdiv w7 (bm (country_of k)))) rows)"

text \<open>
  \<open>melt\<close>: the \<open>w1-6\<close> value of every row, in the order of the rows, then the \<open>w7\<close>
  value of every row; the new column \<open>week\<close> holds the label.
\<close>

definition melt :: "('k \<times> fval \<times> fval) list \<Rightarrow> ('k \<times> string \<times> fval) list" where
  "melt rows =
     map (\<lambda>(k, w16, w7). (k, ''w1-6'', w16)) rows @ map (\<lambda>(k, w16, w7). (k, ''w7'', w7)) rows"

text \<open>
  \<open>scipy.integrate.simps(y, x)\<close> (SciPy 1.7, \<open>even='avg'\<close>): composite Simpson's rule
  for unequal spacing over the triples of samples that start at \<open>start\<close>, \<open>start + 2\<close>,
  ... below \<open>stop\<close>; with an even number of samples, the mean of the rule on all but the
  last interval and on all but the first, each completed by a trapezoid. The slices of
  a single sample are all empty and their sum is 0.0. No group of \<open>groupby\<close> is empty,
  so the call never sees an array of length 0 (it would raise IndexError; the value NaN
  stands there).
\<close>

definition simps_term :: "fval list \<Rightarrow> fval list \<Rightarrow> nat \<Rightarrow> fval" where
  "simps_term y x i =
     (let h0 = fsub (x ! (i + 1)) (x ! i);
          h1 = fsub (x ! (i + 2)) (x ! (i + 1));
          hsum = fadd h0 h1;
          hprod = fmul h0 h1;
          h0divh1 = fdiv h0 h1
      in fmul (fdiv hsum (Fin 6))
           (fadd (fadd (fmul (y ! i) (fsub (Fin 2) (fdiv (Fin 1) h0divh1)))
                       (fmul (y ! (i + 1)) (fdiv (fmul hsum hsum) hprod)))
                 (fmul (y ! (i + 2)) (fsub (Fin 2) h0divh1))))"

definition basic_simps :: "fval list \<Rightarrow> nat \<Rightarrow> int \<Rightarrow> fval list \<Rightarrow> fval" where
  "basic_simps y start stop x =
     fsum (map (simps_term y x) (filter (\<lambda>i. even (i - start)) [start..<nat stop]))"

definition simps :: "fval list \<Rightarrow> fval list \<Rightarrow> fval" where
  "simps y x =
     (let N = length y
      in if N = 0 then NaN
         else if even N then
           let last_dx = fsub (x ! (N - 1)) (x ! (N - 2));
               val = fadd (Fin 0) (fmul (fmul (Fin (1 / 2)) last_dx) (fadd (y ! (N - 1)) (y ! (N - 2))));
               result = basic_simps y 0 (int N - 3) x;
               first_dx = fsub (x ! 1) (x ! 0);
               val = fadd val (fmul (fmul (Fin (1 / 2)) first_dx) (fadd (y ! 1) (y ! 0)));
               result = fadd result (basic_simps y 1 (int N - 2) x);
               val = fdiv val (Fin 2);
               result = fdiv result (Fin 2)
           in fadd result val
         else basic_simps y 0 (int N - 2) x)"

text \<open>
  A row of the result: \<open>country\<close>, \<open>gym\<close>, \<open>week\<close> (the label \<open>w1-6\<close> or \<open>w7\<close>) and the
  value (the column \<open>occupancy\<close> of the kick-off metric, \<open>auc\<close> of the other).
\<close>

type_synonym long_row = "string \<times> string \<times> string \<times> fval"

definition row_country :: "long_row \<Rightarrow> string" where
  "row_country r = fst r"

definition row_gym :: "long_row \<Rightarrow> string" where
  "row_gym r = fst (snd r)"

definition row_week :: "long_row \<Rightarrow> string" where
  "row_week r = fst (snd (snd r))"

definition row_value :: "long_row \<Rightarrow> fval" where
  "row_value r = snd (snd (snd r))"

text \<open>Line 81: the rows sampled at exactly \<open>time(int(kickoff), 0, 0)\<close>.\<close>

definition at_kickoff :: "int \<Rightarrow> week_row \<Rightarrow> bool" where
  "at_kickoff kickoff r = (time_of (datetime r) = (kickoff, 0, 0))"

definition kickoff_key :: "week_row \<Rightarrow> string \<times> string" where
  "kickoff_key r = (country r, gym r)"

definition auc_key :: "week_row \<Rightarrow> string \<times> string \<times> time_of_day" where
  "auc_key r = (country r, gym r, time_of (datetime r))"

text \<open>
  Lines 82 to 102 and 109 to 130, which differ in the index of the pivot only: the wide
  frame with \<open>w1-6\<close>, normalised when \<open>norm\<close> is set (the parameter is \<open>norm_flag\<close>
  here).
\<close>

definition wide ::
  "(week_row \<Rightarrow> 'k::linorder) \<Rightarrow> ('k \<Rightarrow> string) \<Rightarrow> week_row list \<Rightarrow> bool
     \<Rightarrow> error + ('k \<times> fval \<times> fval) list"
where
  "wide keyf country_of dfw norm_flag =
     (case pivot keyf dfw of
        Inl e \<Rightarrow> Inl e
      | Inr p \<Rightarrow>
          (case set_columns p of
             Inl e \<Rightarrow> Inl e
           | Inr rows \<Rightarrow> Inr (if norm_flag then normalise country_of rows else rows)))"

text \<open>
  Line 136: the column \<open>time\<close> becomes the time of day in hours,
  \<open>x.hour + x.minute / 60\<close>. A row of the long frame is then (country, gym, time,
  week label, occupancy).
\<close>

type_synonym timed_row = "string \<times> string \<times> fval \<times> string \<times> fval"

definition hours :: "time_of_day \<Rightarrow> fval" where
  "hours t = (case t of (h, m, s) \<Rightarrow> fadd (Fin (of_int h)) (fdiv (Fin (of_int m)) (Fin 60)))"

definition to_hours ::
  "((string \<times> string \<times> time_of_day) \<times> string \<times> fval) list \<Rightarrow> timed_row list"
where
  "to_hours long = map (\<lambda>((c, g, t), l, v). (c, g, hours t, l, v)) long"

text \<open>Lines 72 to 75, the local function \<open>auc\<close>: the integral of a group.\<close>

definition auc :: "timed_row list \<Rightarrow> fval" where
  "auc grp =
     (let x = map (\<lambda>(c, g, t, l, v). t) grp;
          y = map (\<lambda>(c, g, t, l, v). v) grp
      in simps y x)"

text \<open>
  Lines 137 to 142: one group for each distinct (country, gym, week label), in ascending
  order of the key, with the rows of the group in the order of the frame; then a stable
  sort by week label and gym.
\<close>

definition group_key :: "timed_row \<Rightarrow> string \<times> string \<times> string" where
  "group_key r = (case r of (c, g, t, l, v) \<Rightarrow> (c, g, l))"

definition auc_groups :: "timed_row list \<Rightarrow> long_row list" where
  "auc_groups long =
     map (\<lambda>k. case k of (c, g, l) \<Rightarrow> (c, g, l, auc (filter (\<lambda>r. group_key r = k) long)))
         (sort (remdups (map group_key long)))"

definition sort_values :: "long_row list \<Rightarrow> long_row list" where
  "sort_values rows = sort_key (\<lambda>r. (row_week r, row_gym r)) rows"

definition kickoff_wide ::
  "week_row list \<Rightarrow> int \<Rightarrow> bool \<Rightarrow> error + ((string \<times> string) \<times> fval \<times> fval) list"
where
  "kickoff_wide df kickoff norm_flag =
     wide kickoff_key fst (filter (at_kickoff kickoff) df) norm_flag"

definition auc_wide ::
  "week_row list \<Rightarrow> bool \<Rightarrow> error + ((string \<times> string \<times> time_of_day) \<times> fval \<times> fval) list"
where
  "auc_wide df norm_flag = wide auc_key fst df norm_flag"

text \<open>
  The function returns a frame, returns None after printing a message (the last branch),
  or raises. \<open>time(int(kickoff), 0, 0)\<close> raises ValueError unless the hour is in 0..23.
\<close>

definition prep_data_stats ::
  "week_row list \<Rightarrow> int \<Rightarrow> bool \<Rightarrow> string \<Rightarrow> error + long_row list option"
where
  "prep_data_stats df kickoff norm_flag metric =
     (if metric = ''kick-off'' then
        if \<not> (0 \<le> kickoff \<and> kickoff < 24) then Inl ValueError_hour_range
        else
          (case kickoff_wide df kickoff norm_flag of
             Inl e \<Rightarrow> Inl e
           | Inr rows \<Rightarrow> Inr (Some (map (\<lambda>((c, g), l, v). (c, g, l, v)) (melt rows))))
      else if metric = ''auc'' then
        (case auc_wide df norm_flag of
           Inl e \<Rightarrow> Inl e
         | Inr rows \<Rightarrow> Inr (Some (sort_values (auc_groups (to_hours (melt rows))))))
      else Inr None)"

text \<open>What the call writes to the standard output (line 144).\<close>

definition printed :: "string \<Rightarrow> string list" where
  "printed metric =
     (if metric = ''kick-off'' \<or> metric = ''auc'' then []
      else [''`metric` must be 'kick-off' or 'auc'.''])"

section \<open>Notions used by the properties\<close>

text \<open>A set of week numbers with no gap.\<close>

definition contiguous :: "int set \<Rightarrow> bool" where
  "contiguous S = (\<forall>a\<in>S. \<forall>b\<in>S. {a..b} \<subseteq> S)"

definition weeks_of :: "week_row list \<Rightarrow> int set" where
  "weeks_of df = week ` set df"

definition isoweeks_of :: "raw_row list \<Rightarrow> int set" where
  "isoweeks_of df = (\<lambda>r. isoweek (datetime r)) ` set df"

text \<open>The mean of \<open>w1-6\<close> over the rows of a wide frame that belong to one country.\<close>

definition country_mean ::
  "('k \<Rightarrow> string) \<Rightarrow> ('k \<times> fval \<times> fval) list \<Rightarrow> string \<Rightarrow> fval"
where
  "country_mean country_of rows c =
     pd_mean (map (\<lambda>(k, w16, w7). w16) (filter (\<lambda>(k, w16, w7). country_of k = c) rows))"

text \<open>The times of day at which a gym of a country has a row in the frame.\<close>

definition times_of :: "week_row list \<Rightarrow> string \<Rightarrow> string \<Rightarrow> time_of_day set" where
  "times_of df c g =
     set (map (\<lambda>r. time_of (datetime r)) (filter (\<lambda>r. country r = c \<and> gym r = g) df))"

section \<open>Example frames\<close>

text \<open>A raw row of gym A in England with occupancy 50, at a full hour of a day.\<close>

definition gym_row :: "int \<Rightarrow> int \<Rightarrow> int \<Rightarrow> int \<Rightarrow> raw_row" where
  "gym_row y m d h =
     \<lparr>datetime = \<lparr>year = y, month = m, day = d, hour = h, minute = 0, second = 0\<rparr>,
      country = ''England'', gym = ''gymA'', occupancy = Fin 50\<rparr>"

text \<open>The match of Friday 18 June 2021, and a match on Monday 11 January 2021.\<close>

definition june_18 :: date where
  "june_18 = \<lparr>year = 2021, month = 6, day = 18\<rparr>"

definition january_11 :: date where
  "january_11 = \<lparr>year = 2021, month = 1, day = 11\<rparr>"

text \<open>The eight Fridays from 30 April to 18 June 2021 (ISO weeks 17 to 24), at 20:00.\<close>

definition eight_fridays :: "raw_row list" where
  "eight_fridays =
     [gym_row 2021 4 30 20, gym_row 2021 5 7 20, gym_row 2021 5 14 20, gym_row 2021 5 21 20,
      gym_row 2021 5 28 20, gym_row 2021 6 4 20, gym_row 2021 6 11 20, gym_row 2021 6 18 20]"

text \<open>Seven Mondays across the turn of the year: ISO weeks 49 to 53 of 2020, 1 and 2 of 2021.\<close>

definition mondays_over_new_year :: "raw_row list" where
  "mondays_over_new_year =
     [gym_row 2020 11 30 20, gym_row 2020 12 7 20, gym_row 2020 12 14 20, gym_row 2020 12 21 20,
      gym_row 2020 12 28 20, gym_row 2021 1 4 20, gym_row 2021 1 11 20]"

text \<open>A sample at midnight of the day after the match, and one a second later.\<close>

definition midnight_after :: raw_row where
  "midnight_after = gym_row 2021 6 19 0"

definition second_after :: raw_row where
  "second_after =
     \<lparr>datetime = \<lparr>year = 2021, month = 6, day = 19, hour = 0, minute = 0, second = 1\<rparr>,
      country = ''England'', gym = ''gymA'', occupancy = Fin 50\<rparr>"

text \<open>
  Rows of a windowed frame: week \<open>w\<close> is the \<open>w\<close>-th Friday after 30 April 2021 (week 7
  is the match day, 18 June), sampled at a given hour and minute.
\<close>

definition friday :: "int \<Rightarrow> int \<times> int" where
  "friday w =
     (if 7 * w \<le> 31 then (5, 7 * w)
      else if 7 * w \<le> 61 then (6, 7 * w - 31)
      else (7, 7 * w - 61))"

definition sample :: "string \<Rightarrow> string \<Rightarrow> int \<Rightarrow> int \<Rightarrow> int \<Rightarrow> rat \<Rightarrow> week_row" where
  "sample c g w h mi v =
     \<lparr>datetime = \<lparr>year = 2021, month = fst (friday w), day = snd (friday w),
                  hour = h, minute = mi, second = 0\<rparr>,
      country = c, gym = g, occupancy = Fin v, week = w\<rparr>"

text \<open>A gym with occupancy 50 at every full hour of each of the seven days.\<close>

definition constant_facility :: "string \<Rightarrow> string \<Rightarrow> week_row list" where
  "constant_facility c g = concat (map (\<lambda>w. map (\<lambda>h. sample c g w h 0 50) [0..23]) [1..7])"

text \<open>
  The raw rows of that gym in England: every full hour of the eight Fridays from 30 April
  to 18 June 2021.
\<close>

definition raw_constant_facility :: "raw_row list" where
  "raw_constant_facility =
     concat (map (\<lambda>(m, d). map (\<lambda>h. gym_row 2021 m d h) [0..23])
       [(4, 30), (5, 7), (5, 14), (5, 21), (5, 28), (6, 4), (6, 11), (6, 18)])"

text \<open>A gym sampled once a day, at 20:00, in the given weeks.\<close>

definition at_eight :: "string \<Rightarrow> string \<Rightarrow> int list \<Rightarrow> rat \<Rightarrow> week_row list" where
  "at_eight c g ws v = map (\<lambda>w. sample c g w 20 0 v) ws"

text \<open>
  Gym A has a sample at 20:00 in all seven weeks. Gym B has one in weeks 1 to 6, and on
  the match day is sampled at 21:00 only. Gym C is sampled at 20:30 only.
\<close>

definition gym_b_misses_match_day :: "week_row list" where
  "gym_b_misses_match_day =
     at_eight ''England'' ''gymA'' [1, 2, 3, 4, 5, 6, 7] 50
     @ at_eight ''England'' ''gymB'' [1, 2, 3, 4, 5, 6] 50
     @ [sample ''England'' ''gymB'' 7 21 0 50]
     @ map (\<lambda>w. sample ''England'' ''gymC'' w 20 30 50) [1, 2, 3, 4, 5, 6, 7]"

text \<open>An English gym and a Welsh one.\<close>

definition england_and_wales :: "week_row list" where
  "england_and_wales =
     at_eight ''England'' ''gymA'' [1, 2, 3, 4, 5, 6, 7] 40
     @ at_eight ''Wales'' ''gymC'' [1, 2, 3, 4, 5, 6, 7] 60"

text \<open>An English gym that stands empty (occupancy 0) and a Welsh one.\<close>

definition empty_gym_and_wales :: "week_row list" where
  "empty_gym_and_wales =
     at_eight ''England'' ''gymA'' [1, 2, 3, 4, 5, 6, 7] 0
     @ at_eight ''Wales'' ''gymC'' [1, 2, 3, 4, 5, 6, 7] 50"

text \<open>Two English gyms with baseline means 40 and 60.\<close>

definition two_english_gyms :: "week_row list" where
  "two_english_gyms =
     at_eight ''England'' ''gymA'' [1, 2, 3, 4, 5, 6, 7] 40
     @ at_eight ''England'' ''gymB'' [1, 2, 3, 4, 5, 6, 7] 60"

text \<open>A gym with no data in the two weeks before the match: weeks 1 to 6 and 9.\<close>

definition two_weeks_missing :: "week_row list" where
  "two_weeks_missing = at_eight ''England'' ''gymA'' [1, 2, 3, 4, 5, 6, 9] 50"

text \<open>
  The raw rows behind that frame: six Fridays from 7 May to 11 June 2021 and the match day,
  Friday 2 July 2021.
\<close>

definition raw_two_weeks_missing :: "raw_row list" where
  "raw_two_weeks_missing =
     [gym_row 2021 5 7 20, gym_row 2021 5 14 20, gym_row 2021 5 21 20, gym_row 2021 5 28 20,
      gym_row 2021 6 4 20, gym_row 2021 6 11 20, gym_row 2021 7 2 20]"

definition july_2 :: date where
  "july_2 = \<lparr>year = 2021, month = 7, day = 2\<rparr>"

text \<open>A gym with samples in six weeks only.\<close>

definition six_weeks_only :: "week_row list" where
  "six_weeks_only = at_eight ''England'' ''gymA'' [1, 2, 3, 4, 5, 6] 50"

text \<open>
  Gym A in England, sampled at 19:00 (occupancy 40) and at 20:00 (occupancy 60), and gym B
  in Scotland, sampled at 20:00 only (occupancy 30).
\<close>

definition one_and_two_samples :: "week_row list" where
  "one_and_two_samples =
     map (\<lambda>w. sample ''Scotland'' ''gymB'' w 20 0 30) [1, 2, 3, 4, 5, 6, 7]
     @ map (\<lambda>w. sample ''England'' ''gymA'' w 19 0 40) [1, 2, 3, 4, 5, 6, 7]
     @ map (\<lambda>w. sample ''England'' ''gymA'' w 20 0 60) [1, 2, 3, 4, 5, 6, 7]"

section \<open>Properties of prep_data\<close>

subsection \<open>Helper lemmas and evaluated examples\<close>

lemma week_with_week: "week (with_week r w) = w"
  by (simp add: with_week_def)

lemma contiguousD:
  "contiguous S \<Longrightarrow> a \<in> S \<Longrightarrow> b \<in> S \<Longrightarrow> a \<le> k \<Longrightarrow> k \<le> b \<Longrightarrow> k \<in> S"
  unfolding contiguous_def by (meson atLeastAtMost_iff subsetD)

lemma prep_data_eight_fridays:
  "prep_data eight_fridays june_18 =
     Inr [with_week (gym_row 2021 5 7 20) 1, with_week (gym_row 2021 5 14 20) 2,
          with_week (gym_row 2021 5 21 20) 3, with_week (gym_row 2021 5 28 20) 4,
          with_week (gym_row 2021 6 4 20) 5, with_week (gym_row 2021 6 11 20) 6,
          with_week (gym_row 2021 6 18 20) 7]"
  by code_simp

lemma dow_filter_eight_fridays: "dow_filter eight_fridays june_18 = eight_fridays"
  by code_simp

lemma isoweeks_eight_fridays: "isoweeks_of eight_fridays = {17, 18, 19, 20, 21, 22, 23, 24}"
  unfolding isoweeks_of_def eight_fridays_def by code_simp

subsection \<open>The date filter (line 30)\<close>

text \<open>
  Against C3 as stated: for the match of 18 June 2021, a row stamped 19 June 00:00:00 is not
  strictly before the match date plus one day, and the filter keeps it.
\<close>

theorem date_filter_keeps_midnight_after:
  "midnight_value june_18 + 86400 \<le> timestamp_value (datetime midnight_after)
   \<and> date_filter [midnight_after] june_18 = [midnight_after]"
  by code_simp

text \<open>
  C3, amended: the filter of line 30 retains exactly the rows whose timestamp is at most the
  match date plus one day. Midnight after the match day is included; every later row is
  excluded, and every row kept is a row of the raw frame.
\<close>

theorem date_filter_retains:
  "(r \<in> set (date_filter df_raw match_date)) =
     (r \<in> set df_raw \<and> timestamp_value (datetime r) \<le> midnight_value match_date + 86400)"
  by (auto simp: date_filter_def)

text \<open>The row at midnight after the match is kept, the row one second later is not.\<close>

theorem date_filter_retains_witness:
  "midnight_after \<in> set (date_filter [midnight_after, second_after] june_18)
   \<and> second_after \<notin> set (date_filter [midnight_after, second_after] june_18)"
proof -
  have "timestamp_value (datetime midnight_after) \<le> midnight_value june_18 + 86400"
    by code_simp
  moreover have "\<not> timestamp_value (datetime second_after) \<le> midnight_value june_18 + 86400"
    by code_simp
  ultimately show ?thesis
    using date_filter_retains [of midnight_after "[midnight_after, second_after]" june_18]
      date_filter_retains [of second_after "[midnight_after, second_after]" june_18]
    by simp
qed

subsection \<open>The weekday of the rows (lines 33 and 34)\<close>

text \<open>
  C4: whenever \<open>prep_data\<close> returns a frame, every row of it falls on the same day of the
  week as the match date.
\<close>

theorem prep_data_same_weekday:
  "prep_data df_raw match_date = Inr out \<Longrightarrow>
     \<forall>r\<in>set out. weekday (datetime r) = weekday match_date"
  by (auto simp: prep_data_def dow_filter_def Let_def with_week_def split: if_splits)

text \<open>
  Eight Fridays and a Saturday midnight, for a match on a Friday: the Saturday row is
  gone from the result, and the rows of the result are Fridays.
\<close>

theorem prep_data_same_weekday_witness:
  "prep_data (midnight_after # eight_fridays) june_18 =
     Inr [with_week (gym_row 2021 5 7 20) 1, with_week (gym_row 2021 5 14 20) 2,
          with_week (gym_row 2021 5 21 20) 3, with_week (gym_row 2021 5 28 20) 4,
          with_week (gym_row 2021 6 4 20) 5, with_week (gym_row 2021 6 11 20) 6,
          with_week (gym_row 2021 6 18 20) 7]
   \<and> weekday (datetime (with_week (gym_row 2021 5 7 20) 1)) = weekday june_18
   \<and> weekday (datetime midnight_after) \<noteq> weekday june_18"
proof -
  have run: "prep_data (midnight_after # eight_fridays) june_18 =
     Inr [with_week (gym_row 2021 5 7 20) 1, with_week (gym_row 2021 5 14 20) 2,
          with_week (gym_row 2021 5 21 20) 3, with_week (gym_row 2021 5 28 20) 4,
          with_week (gym_row 2021 6 4 20) 5, with_week (gym_row 2021 6 11 20) 6,
          with_week (gym_row 2021 6 18 20) 7]"
    by code_simp
  have other: "weekday (datetime midnight_after) \<noteq> weekday june_18"
    by code_simp
  show ?thesis
    using run other prep_data_same_weekday [OF run] by simp
qed

subsection \<open>The week numbers (lines 37 to 41)\<close>

text \<open>
  Where the numbering works: whenever \<open>prep_data\<close> returns a frame, every week number in
  it is at least 1; if the largest and the smallest ISO week number of the rows that pass
  both filters differ by at most 7, every week number is in 1..7; and if those ISO week
  numbers have no gap, the week numbers of the result have none.
\<close>

lemma prep_data_weeks_within_span:
  assumes ok: "prep_data df_raw match_date = Inr out"
  shows "(\<forall>w\<in>weeks_of out. 1 \<le> w)
       \<and> (Max (isoweeks_of (dow_filter df_raw match_date))
            - Min (isoweeks_of (dow_filter df_raw match_date)) \<le> 7
           \<longrightarrow> weeks_of out \<subseteq> {1..7})
       \<and> (contiguous (isoweeks_of (dow_filter df_raw match_date)) \<longrightarrow> contiguous (weeks_of out))"
proof -
  define df where "df = dow_filter df_raw match_date"
  define I where "I = isoweeks_of df"
  define lo where "lo = Min I"
  define numbered where "numbered = map (\<lambda>r. with_week r (isoweek (datetime r) - lo + 1)) df"
  define N where "N = weeks_of numbered"
  have ne: "df \<noteq> []" using ok by (auto simp: prep_data_def df_def Let_def split: if_splits)
  have finI: "finite I" and neI: "I \<noteq> {}" using ne by (auto simp: I_def isoweeks_of_def)
  have lo_in: "lo \<in> I" unfolding lo_def using finI neI by (rule Min_in)
  have lo_le: "\<And>i. i \<in> I \<Longrightarrow> lo \<le> i" unfolding lo_def using finI by simp
  have N_eq: "N = (\<lambda>i. i - lo + 1) ` I"
    by (auto simp: N_def numbered_def weeks_of_def I_def isoweeks_of_def week_with_week image_iff)
  have finN: "finite N" and neN: "N \<noteq> {}" using finI neI by (auto simp: N_eq)
  have out_eq: "out = (if Max N = 8
        then filter (\<lambda>r. week r > 0) (map (\<lambda>r. r\<lparr>week := week r - 1\<rparr>) numbered)
        else numbered)"
    using ok ne
    by (simp add: prep_data_def df_def[symmetric] Let_def I_def isoweeks_of_def lo_def numbered_def
        N_def weeks_of_def image_image split: if_splits)
  have W_eq: "weeks_of out = (if Max N = 8 then {w - 1 | w. w \<in> N \<and> w - 1 > 0} else N)"
  proof (cases "Max N = 8")
    case True
    have "weeks_of out = (\<lambda>r. week r - 1) ` {r \<in> set numbered. week r - 1 > 0}"
      using True by (simp add: out_eq weeks_of_def N_def filter_map o_def image_image)
    also have "\<dots> = {w - 1 | w. w \<in> N \<and> w - 1 > 0}"
      by (auto simp: N_def weeks_of_def)
    finally show ?thesis using True by simp
  next
    case False
    then show ?thesis by (simp add: out_eq N_def)
  qed
  have N_ge: "\<And>w. w \<in> N \<Longrightarrow> 1 \<le> w" using lo_le by (auto simp: N_eq)
  have p1: "\<forall>w\<in>weeks_of out. 1 \<le> w"
    using N_ge by (auto simp: W_eq split: if_splits)
  have p2: "weeks_of out \<subseteq> {1..7}" if span: "Max I - Min I \<le> 7"
  proof -
    have "\<And>i. i \<in> I \<Longrightarrow> i \<le> Max I" using finI by simp
    then have "\<And>i. i \<in> I \<Longrightarrow> i - lo \<le> 7" using span unfolding lo_def by fastforce
    then have N_le8: "\<And>w. w \<in> N \<Longrightarrow> w \<le> 8" by (fastforce simp: N_eq)
    show ?thesis
    proof (cases "Max N = 8")
      case True
      then show ?thesis using N_le8 by (auto simp: W_eq)
    next
      case False
      have "Max N \<le> 8" using N_le8 finN neN by simp
      with False have "Max N \<le> 7" by simp
      then have "\<And>w. w \<in> N \<Longrightarrow> w \<le> 7" using finN Max_ge order_trans by blast
      then show ?thesis using False N_ge by (auto simp: W_eq)
    qed
  qed
  have p3: "contiguous (weeks_of out)" if cI: "contiguous I"
  proof -
    have cN: "contiguous N"
      unfolding contiguous_def
    proof (intro ballI subsetI)
      fix a b k assume a: "a \<in> N" and b: "b \<in> N" and k: "k \<in> {a..b}"
      from a b obtain i j where i: "i \<in> I" "a = i - lo + 1" and j: "j \<in> I" "b = j - lo + 1"
        by (auto simp: N_eq)
      have "i \<le> k + lo - 1" "k + lo - 1 \<le> j" using k i j by auto
      then have "k + lo - 1 \<in> I" using cI i(1) j(1) by (rule contiguousD[rotated 3])
      then have "(k + lo - 1) - lo + 1 \<in> N" unfolding N_eq by (rule imageI)
      then show "k \<in> N" by simp
    qed
    show ?thesis
    proof (cases "Max N = 8")
      case False
      then show ?thesis using cN by (simp add: W_eq)
    next
      case True
      show ?thesis unfolding contiguous_def
      proof (intro ballI subsetI)
        fix a b k assume a: "a \<in> weeks_of out" and b: "b \<in> weeks_of out" and k: "k \<in> {a..b}"
        from a b True have a': "a + 1 \<in> N" "a > 0" and b': "b + 1 \<in> N"
          by (auto simp: W_eq)
        have "a + 1 \<le> k + 1" "k + 1 \<le> b + 1" using k by auto
        then have "k + 1 \<in> N" using cN a'(1) b' by (rule contiguousD[rotated 3])
        moreover have "k > 0" using k a' by auto
        ultimately show "k \<in> weeks_of out" using True by (auto simp: W_eq intro!: exI[of _ "k + 1"])
      qed
    qed
  qed
  show ?thesis using p1 p2 p3 by (simp add: df_def I_def)
qed

text \<open>
  Eight consecutive Fridays (ISO weeks 17 to 24) take the branch of line 39: the first one
  is dropped and the others are numbered 1 to 7.
\<close>

lemma prep_data_weeks_eight_fridays:
  "prep_data eight_fridays june_18 =
     Inr [with_week (gym_row 2021 5 7 20) 1, with_week (gym_row 2021 5 14 20) 2,
          with_week (gym_row 2021 5 21 20) 3, with_week (gym_row 2021 5 28 20) 4,
          with_week (gym_row 2021 6 4 20) 5, with_week (gym_row 2021 6 11 20) 6,
          with_week (gym_row 2021 6 18 20) 7]
   \<and> Max (isoweeks_of (dow_filter eight_fridays june_18))
       - Min (isoweeks_of (dow_filter eight_fridays june_18)) \<le> 7
   \<and> contiguous (isoweeks_of (dow_filter eight_fridays june_18))
   \<and> weeks_of [with_week (gym_row 2021 5 7 20) 1, with_week (gym_row 2021 5 14 20) 2,
          with_week (gym_row 2021 5 21 20) 3, with_week (gym_row 2021 5 28 20) 4,
          with_week (gym_row 2021 6 4 20) 5, with_week (gym_row 2021 6 11 20) 6,
          with_week (gym_row 2021 6 18 20) 7] \<subseteq> {1..7}
   \<and> contiguous (weeks_of [with_week (gym_row 2021 5 7 20) 1, with_week (gym_row 2021 5 14 20) 2,
          with_week (gym_row 2021 5 21 20) 3, with_week (gym_row 2021 5 28 20) 4,
          with_week (gym_row 2021 6 4 20) 5, with_week (gym_row 2021 6 11 20) 6,
          with_week (gym_row 2021 6 18 20) 7])"
proof -
  have iso: "isoweeks_of (dow_filter eight_fridays june_18) = {17..24}"
    by (auto simp: dow_filter_eight_fridays isoweeks_eight_fridays)
  have span: "Max (isoweeks_of (dow_filter eight_fridays june_18))
       - Min (isoweeks_of (dow_filter eight_fridays june_18)) \<le> 7"
    unfolding dow_filter_eight_fridays isoweeks_eight_fridays by simp
  have cont: "contiguous (isoweeks_of (dow_filter eight_fridays june_18))"
    unfolding iso contiguous_def by auto
  show ?thesis
    using prep_data_weeks_within_span [OF prep_data_eight_fridays] span cont prep_data_eight_fridays
    by blast
qed

text \<open>
  C2 (the week numbers of the result are a contiguous subset of 1..7, also when the rows
  span a year boundary) does not hold of the code. On seven consecutive Mondays across the
  turn of the year, one row each, the ISO week number falls from 53 to 1: the smallest
  week number belongs to a January row, the largest is 53, and the test for 8 on line 39
  never fires. The rows are numbered 49 to 53, 1 and 2, against the docstring (each week
  numbered 1 to 6, and 7 for the match day): the match day, 11 January, is week 2 and
  28 December is week 53. Each pair below is (day of the month, week).
\<close>

theorem prep_data_year_boundary_weeks:
  "map_sum id (map (\<lambda>r. (day (datetime r), week r)))
     (prep_data mondays_over_new_year january_11) =
     Inr [(30, 49), (7, 50), (14, 51), (21, 52), (28, 53), (4, 1), (11, 2)]"
  by code_simp

section \<open>Properties of prep_data_stats\<close>

subsection \<open>Helper lemmas: floats, the wide frame, the kick-off rows\<close>

lemma wide_Inr:
  assumes "wide keyf country_of dfw norm_flag = Inr rows"
  shows "distinct (map (\<lambda>r. (keyf r, week r)) dfw)"
    and "length (sort (remdups (map week dfw))) = 7"
    and "map fst rows = sort (remdups (map keyf dfw))"
  using assms
  by (auto simp: wide_def pivot_def set_columns_def normalise_def Let_def o_def case_prod_unfold
      split: if_splits sum.splits)

lemma card_weeks_of: "card (weeks_of df) = length (sort (remdups (map week df)))"
  by (simp add: weeks_of_def length_remdups_card_conv)

lemma wide_fails:
  "card (weeks_of dfw) \<noteq> 7 \<Longrightarrow> \<exists>e. wide keyf country_of dfw norm_flag = Inl e"
  by (auto simp: wide_def pivot_def set_columns_def Let_def card_weeks_of split: sum.splits)

lemma fdiv_NaN_right: "fdiv x NaN = NaN"
  by (cases x) simp_all

lemma fmul_NaN_right: "fmul x NaN = NaN"
  by (cases x) simp_all

lemma fadd_NaN_right: "fadd x NaN = NaN"
  by (cases x) simp_all

text \<open>The rows of the wide frame before normalisation, spelled out.\<close>

lemma wide_False:
  assumes "wide keyf country_of dfw False = Inr rows"
  shows "rows = map (\<lambda>k. (k, pd_mean (butlast (map (cell keyf dfw k) (sort (remdups (map week dfw))))),
                            last (map (cell keyf dfw k) (sort (remdups (map week dfw))))))
                    (sort (remdups (map keyf dfw)))"
  using assms
  by (auto simp: wide_def pivot_def set_columns_def Let_def split: if_splits sum.splits)

lemma wide_True:
  "wide keyf country_of dfw True = Inr rows \<longleftrightarrow>
     (\<exists>rows0. wide keyf country_of dfw False = Inr rows0 \<and> rows = normalise country_of rows0)"
  by (auto simp: wide_def split: sum.splits)

lemma wide_isl:
  "(\<exists>e. wide keyf country_of dfw True = Inl e) \<longleftrightarrow> (\<exists>e. wide keyf country_of dfw False = Inl e)"
  by (auto simp: wide_def split: sum.splits)

lemma normalise_keys: "map fst (normalise country_of rows) = map fst rows"
  by (simp add: normalise_def Let_def case_prod_unfold o_def)

lemma set_melt_keys: "fst ` set (melt rows) = fst ` set rows"
  by (force simp: melt_def image_Un image_image case_prod_unfold)

lemma sorted_last_Max:
  fixes ys :: "int list"
  assumes "sorted ys" "ys \<noteq> []"
  shows "last ys = Max (set ys)"
proof -
  have split: "ys = butlast ys @ [last ys]" using assms(2) by simp
  have "sorted (butlast ys @ [last ys])" using assms(1) split by simp
  then have low: "\<forall>y\<in>set (butlast ys). y \<le> last ys" by (simp add: sorted_append)
  have "set ys = set (butlast ys) \<union> {last ys}"
    using arg_cong [OF split, of set] by simp
  then have "\<forall>y\<in>set ys. y \<le> last ys" using low by auto
  moreover have "last ys \<in> set ys" using assms(2) by simp
  ultimately show ?thesis by (intro Max_eqI [symmetric]) auto
qed

lemma last_sort_remdups:
  fixes xs :: "int list"
  assumes "xs \<noteq> []"
  shows "last (sort (remdups xs)) = Max (set xs)"
proof -
  have "sort (remdups xs) \<noteq> []" using assms by (metis length_0_conv length_sort remdups_eq_nil_iff)
  then show ?thesis using sorted_last_Max [of "sort (remdups xs)"] by simp
qed

lemma kickoff_filter_idem:
  "prep_data_stats df kickoff norm_flag ''kick-off'' =
     prep_data_stats (filter (at_kickoff kickoff) df) kickoff norm_flag ''kick-off''"
  by (simp add: prep_data_stats_def kickoff_wide_def)

lemma kickoff_out:
  assumes "prep_data_stats df kickoff norm_flag ''kick-off'' = Inr (Some out)"
  obtains rows where "kickoff_wide df kickoff norm_flag = Inr rows"
    and "out = map (\<lambda>((c, g), l, v). (c, g, l, v)) (melt rows)"
  using assms by (auto simp: prep_data_stats_def split: if_splits sum.splits)

lemma kickoff_rows_have_sample:
  assumes ok: "prep_data_stats df kickoff norm_flag ''kick-off'' = Inr (Some out)"
    and r: "r \<in> set out"
  shows "\<exists>x\<in>set df. at_kickoff kickoff x \<and> country x = row_country r \<and> gym x = row_gym r"
proof -
  from ok obtain rows where w: "kickoff_wide df kickoff norm_flag = Inr rows"
    and out: "out = map (\<lambda>((c, g), l, v). (c, g, l, v)) (melt rows)"
    by (rule kickoff_out)
  from r out obtain m where m: "m \<in> set (melt rows)"
    and rm: "r = (fst (fst m), snd (fst m), fst (snd m), snd (snd m))"
    by (auto simp: case_prod_unfold)
  have "fst m \<in> fst ` set (melt rows)" using m by (rule imageI)
  then have "fst m \<in> set (map fst rows)" by (simp add: set_melt_keys)
  also have "map fst rows = sort (remdups (map kickoff_key (filter (at_kickoff kickoff) df)))"
    using w unfolding kickoff_wide_def by (rule wide_Inr(3))
  finally obtain x where x: "x \<in> set df" "at_kickoff kickoff x" and "fst m = kickoff_key x"
    by auto
  then have "country x = row_country r" "gym x = row_gym r"
    using rm by (simp_all add: kickoff_key_def row_country_def row_gym_def)
  with x show ?thesis by blast
qed

lemma w16_neq_w7: "''w1-6'' \<noteq> ''w7''"
  by simp

lemma kickoff_missing_last_week:
  assumes ok: "prep_data_stats df kickoff norm_flag ''kick-off'' = Inr (Some out)"
    and r: "r \<in> set out" and l: "row_week r = ''w7''"
    and none: "\<not> (\<exists>x\<in>set df. at_kickoff kickoff x \<and> country x = row_country r \<and> gym x = row_gym r
                 \<and> week x = Max (weeks_of (filter (at_kickoff kickoff) df)))"
  shows "row_value r = NaN"
proof -
  define dfw where "dfw = filter (at_kickoff kickoff) df"
  define ws where "ws = sort (remdups (map week dfw))"
  from ok obtain rows where w: "kickoff_wide df kickoff norm_flag = Inr rows"
    and out: "out = map (\<lambda>((c, g), l, v). (c, g, l, v)) (melt rows)"
    by (rule kickoff_out)
  have w': "wide kickoff_key fst dfw norm_flag = Inr rows"
    using w by (simp add: kickoff_wide_def dfw_def)
  have len: "length ws = 7" unfolding ws_def using w' by (rule wide_Inr(2))
  then have "ws \<noteq> []" by auto
  then have ne: "map week dfw \<noteq> []" unfolding ws_def by auto
  have last_ws: "last ws = Max (weeks_of dfw)"
    unfolding ws_def weeks_of_def using last_sort_remdups [OF ne] by simp
  obtain rows0 where w0: "wide kickoff_key fst dfw False = Inr rows0"
    and rows: "rows = (if norm_flag then normalise fst rows0 else rows0)"
    using w' by (cases norm_flag) (auto simp: wide_True)
  have rows0: "rows0 = map (\<lambda>k. (k, pd_mean (butlast (map (cell kickoff_key dfw k) ws)),
                            last (map (cell kickoff_key dfw k) ws)))
                    (sort (remdups (map kickoff_key dfw)))"
    using wide_False [OF w0] by (simp add: ws_def)
  have no_cell: "cell kickoff_key dfw (row_country r, row_gym r) (last ws) = NaN"
  proof -
    have "filter (\<lambda>x. kickoff_key x = (row_country r, row_gym r) \<and> week x = last ws) dfw = []"
      using none by (auto simp: filter_empty_conv dfw_def kickoff_key_def last_ws)
    then show ?thesis by (simp add: cell_def)
  qed
  have w7_0: "b = NaN" if "((row_country r, row_gym r), a, b) \<in> set rows0" for a b
    using that no_cell \<open>ws \<noteq> []\<close> by (auto simp: rows0 last_map)
  have w7: "b = NaN" if "((row_country r, row_gym r), a, b) \<in> set rows" for a b
  proof (cases norm_flag)
    case False
    then show ?thesis using that w7_0 rows by simp
  next
    case True
    then have "\<exists>a0 b0 d. ((row_country r, row_gym r), a0, b0) \<in> set rows0 \<and> b = fdiv b0 d"
      using that rows by (force simp: normalise_def Let_def)
    then obtain a0 b0 d where "((row_country r, row_gym r), a0, b0) \<in> set rows0"
      and b: "b = fdiv b0 d" by blast
    then have "b0 = NaN" using w7_0 by blast
    then show ?thesis using b by simp
  qed
  from r out l have "((row_country r, row_gym r), ''w7'', row_value r) \<in> set (melt rows)"
    by (auto simp: row_country_def row_gym_def row_week_def row_value_def)
  then obtain a where "((row_country r, row_gym r), a, row_value r) \<in> set rows"
    by (auto simp: melt_def)
  then show ?thesis by (rule w7)
qed

lemma filter_eq_upto:
  assumes "a \<le> k" "k \<le> b"
  shows "filter (\<lambda>h. h = k) [a..b] = [k]"
proof -
  have "[a..b] = [a..k - 1] @ k # [k + 1..b]" using assms by (rule upto_split3)
  moreover have "filter (\<lambda>h. h = k) [a..k - 1] = []" by (auto simp: filter_empty_conv)
  moreover have "filter (\<lambda>h. h = k) [k + 1..b] = []" by (auto simp: filter_empty_conv)
  ultimately show ?thesis by simp
qed

lemma at_kickoff_sample: "at_kickoff k (sample c g w h 0 v) \<longleftrightarrow> h = k"
  by (simp add: at_kickoff_def sample_def time_of_def)

lemma filter_constant_facility:
  assumes "0 \<le> k" "k < 24"
  shows "filter (at_kickoff k) (constant_facility c g) = map (\<lambda>w. sample c g w k 0 50) [1..7]"
proof -
  have one: "filter (at_kickoff k) (map (\<lambda>h. sample c g w h 0 50) [0..23]) = [sample c g w k 0 50]"
    for w
    using assms filter_eq_upto [of 0 k 23]
    by (simp add: filter_map o_def at_kickoff_sample)
  show ?thesis
    by (simp add: constant_facility_def filter_concat o_def one del: upto.simps)
qed

lemma upto_1_7: "[1..7] = [1, 2, 3, 4, 5, 6, 7::int]"
  by code_simp

lemma week_sample: "week (sample c g w h mi v) = w" "country (sample c g w h mi v) = c"
  "gym (sample c g w h mi v) = g" "occupancy (sample c g w h mi v) = Fin v"
  by (simp_all add: sample_def)

lemma kickoff_constant_facility:
  assumes "0 \<le> k" "k < 24"
  shows "prep_data_stats (constant_facility c g) k False ''kick-off'' =
           Inr (Some [(c, g, ''w1-6'', Fin 50), (c, g, ''w7'', Fin 50)])"
proof -
  have "kickoff_wide (constant_facility c g) k False = Inr [((c, g), Fin 50, Fin 50)]"
    using assms
    by (simp add: kickoff_wide_def filter_constant_facility upto_1_7 wide_def pivot_def
        set_columns_def cell_def kickoff_key_def week_sample pd_mean_def fsum_def Let_def)
  then show ?thesis using assms by (simp add: prep_data_stats_def melt_def)
qed

subsection \<open>Helper lemmas: the groups of the AUC metric\<close>

lemma simps_single: "length y = 1 \<Longrightarrow> simps y x = Fin 0"
  by (simp add: simps_def basic_simps_def fsum_def)

lemma auc_out:
  assumes "prep_data_stats df kickoff norm_flag ''auc'' = Inr (Some out)"
  obtains rows where "auc_wide df norm_flag = Inr rows"
    and "out = sort_values (auc_groups (to_hours (melt rows)))"
  using assms by (auto simp: prep_data_stats_def split: if_splits sum.splits)

text \<open>A row of the grouped frame integrates the rows of its group, which is not empty.\<close>

lemma auc_groups_mem:
  assumes "r \<in> set (auc_groups long)"
  obtains c g l where "r = (c, g, l, auc (filter (\<lambda>r. group_key r = (c, g, l)) long))"
    and "filter (\<lambda>r. group_key r = (c, g, l)) long \<noteq> []"
proof -
  from assms obtain k where k: "k \<in> group_key ` set long"
    and r: "r = (case k of (c, g, l) \<Rightarrow> (c, g, l, auc (filter (\<lambda>r. group_key r = k) long)))"
    by (auto simp: auc_groups_def)
  obtain c g l where keq: "k = (c, g, l)" by (rule prod_cases3)
  have "filter (\<lambda>r. group_key r = (c, g, l)) long \<noteq> []"
    using k keq by (auto simp: filter_empty_conv)
  then show thesis using that [of c g l] r keq by simp
qed

text \<open>The group of a gym holds one row of the wide frame for each of its times of day.\<close>

lemma filter_group:
  "filter (\<lambda>r. group_key r = (c, g, l)) (to_hours (melt rows)) =
     (if l = ''w1-6''
      then map (\<lambda>(k, w16, w7). (c, g, hours (snd (snd k)), ''w1-6'', w16))
             (filter (\<lambda>(k, w16, w7). fst k = c \<and> fst (snd k) = g) rows)
      else if l = ''w7''
      then map (\<lambda>(k, w16, w7). (c, g, hours (snd (snd k)), ''w7'', w7))
             (filter (\<lambda>(k, w16, w7). fst k = c \<and> fst (snd k) = g) rows)
      else [])"
  by (induction rows)
    (auto simp: melt_def to_hours_def group_key_def filter_map o_def case_prod_unfold
      filter_empty_conv)

lemma length_key_filter:
  assumes d: "distinct (map fst rows)"
  shows "length (filter (\<lambda>(k, w16, w7). P k) rows) = card {k \<in> fst ` set rows. P k}"
proof -
  have "length (filter (\<lambda>(k, w16, w7). P k) rows) = length (filter P (map fst rows))"
    by (induction rows) auto
  also have "\<dots> = card (set (filter P (map fst rows)))"
    using distinct_filter [OF d, of P] by (rule distinct_card [symmetric])
  also have "set (filter P (map fst rows)) = {k \<in> fst ` set rows. P k}" by auto
  finally show ?thesis .
qed

lemma card_times_of:
  "card {k \<in> auc_key ` set df. fst k = c \<and> fst (snd k) = g} = card (times_of df c g)"
proof -
  have "{k \<in> auc_key ` set df. fst k = c \<and> fst (snd k) = g} = (\<lambda>t. (c, g, t)) ` times_of df c g"
    by (auto simp: auc_key_def times_of_def image_iff)
  moreover have "inj_on (\<lambda>t. (c, g, t)) (times_of df c g)" by (simp add: inj_on_def)
  ultimately show ?thesis by (simp add: card_image)
qed

lemma auc_group_length:
  assumes w: "auc_wide df norm_flag = Inr rows"
    and ne: "filter (\<lambda>r. group_key r = (c, g, l)) (to_hours (melt rows)) \<noteq> []"
  shows "length (filter (\<lambda>r. group_key r = (c, g, l)) (to_hours (melt rows)))
           = card (times_of df c g)"
proof -
  have keys: "map fst rows = sort (remdups (map auc_key df))"
    using w unfolding auc_wide_def by (rule wide_Inr(3))
  then have d: "distinct (map fst rows)" by simp
  have s: "fst ` set rows = auc_key ` set df"
    using arg_cong [OF keys, of set] by simp
  have l: "l = ''w1-6'' \<or> l = ''w7''" using ne by (auto simp: filter_group split: if_splits)
  then have "length (filter (\<lambda>r. group_key r = (c, g, l)) (to_hours (melt rows)))
      = length (filter (\<lambda>(k, w16, w7). fst k = c \<and> fst (snd k) = g) rows)"
    by (auto simp: filter_group)
  also have "\<dots> = card {k \<in> fst ` set rows. fst k = c \<and> fst (snd k) = g}"
    using d by (rule length_key_filter)
  also have "\<dots> = card (times_of df c g)" by (simp add: s card_times_of)
  finally show ?thesis .
qed

lemma auc_single_sample:
  assumes ok: "prep_data_stats df kickoff norm_flag ''auc'' = Inr (Some out)"
    and r: "r \<in> set out" and few: "card (times_of df (row_country r) (row_gym r)) < 2"
  shows "row_value r = Fin 0"
proof -
  from ok obtain rows where w: "auc_wide df norm_flag = Inr rows"
    and out: "out = sort_values (auc_groups (to_hours (melt rows)))"
    by (rule auc_out)
  from r out have "r \<in> set (auc_groups (to_hours (melt rows)))" by (simp add: sort_values_def)
  then obtain c g l
    where req: "r = (c, g, l, auc (filter (\<lambda>r. group_key r = (c, g, l)) (to_hours (melt rows))))"
      and ne: "filter (\<lambda>r. group_key r = (c, g, l)) (to_hours (melt rows)) \<noteq> []"
    by (rule auc_groups_mem)
  have cg: "row_country r = c" "row_gym r = g" by (simp_all add: req row_country_def row_gym_def)
  have len: "length (filter (\<lambda>r. group_key r = (c, g, l)) (to_hours (melt rows)))
           = card (times_of df c g)"
    using w ne by (rule auc_group_length)
  have "length (filter (\<lambda>r. group_key r = (c, g, l)) (to_hours (melt rows))) \<noteq> 0"
    using ne by simp
  with len few cg
  have "length (filter (\<lambda>r. group_key r = (c, g, l)) (to_hours (melt rows))) = 1"
    by simp
  then have "auc (filter (\<lambda>r. group_key r = (c, g, l)) (to_hours (melt rows))) = Fin 0"
    by (simp add: auc_def simps_single)
  then show ?thesis by (simp add: req row_value_def)
qed

subsection \<open>Helper lemmas: countries without a baseline\<close>

lemma baseline_map_other:
  "c \<noteq> ''England'' \<Longrightarrow> c \<noteq> ''Scotland'' \<Longrightarrow> baseline_map cw c = NaN"
  by (simp add: baseline_map_def Let_def)

lemma normalise_unknown:
  assumes "(k, a, b) \<in> set (normalise country_of rows0)"
    and "country_of k \<noteq> ''England''" "country_of k \<noteq> ''Scotland''"
  shows "a = NaN \<and> b = NaN"
  using assms by (auto simp: normalise_def Let_def baseline_map_other fdiv_NaN_right)

lemma kickoff_unknown_country:
  assumes ok: "prep_data_stats df kickoff True ''kick-off'' = Inr (Some out)"
    and r: "r \<in> set out"
    and c: "row_country r \<noteq> ''England''" "row_country r \<noteq> ''Scotland''"
  shows "row_value r = NaN"
proof -
  from ok obtain rows where w: "kickoff_wide df kickoff True = Inr rows"
    and out: "out = map (\<lambda>((c, g), l, v). (c, g, l, v)) (melt rows)"
    by (rule kickoff_out)
  from w obtain rows0 where rows: "rows = normalise fst rows0"
    by (auto simp: kickoff_wide_def wide_True)
  from r out obtain k a b where "(k, a, b) \<in> set rows" "fst k = row_country r"
    "row_value r = a \<or> row_value r = b"
    by (auto simp: melt_def row_country_def row_value_def)
  then show ?thesis using normalise_unknown [of k a b fst rows0] c rows by auto
qed

lemma foldl_fadd_NaN: "a = NaN \<or> NaN \<in> set vs \<Longrightarrow> foldl fadd a vs = NaN"
proof (induction vs arbitrary: a)
  case Nil
  then show ?case by simp
next
  case (Cons v vs)
  have "fadd a v = NaN \<or> NaN \<in> set vs"
    using Cons.prems by (auto simp: fadd_NaN_right)
  then show ?case using Cons.IH by simp
qed

lemma fsum_NaN: "NaN \<in> set vs \<Longrightarrow> fsum vs = NaN"
  by (simp add: fsum_def foldl_fadd_NaN)

lemma simps_term_NaN: "y ! i = NaN \<Longrightarrow> simps_term y x i = NaN"
  by (simp add: simps_term_def Let_def fmul_NaN_right)

lemma simps_all_NaN:
  assumes len: "2 \<le> length y" and nan: "\<forall>v\<in>set y. v = NaN"
  shows "simps y x = NaN"
proof -
  have at: "y ! i = NaN" if "i < length y" for i using nan that by simp
  show ?thesis
  proof (cases "even (length y)")
    case True
    have "1 < length y" using len by linarith
    then have "y ! 1 = NaN" by (rule at)
    then show ?thesis using True len
      by (simp add: simps_def Let_def fmul_NaN_right fadd_NaN_right)
  next
    case False
    then have three: "3 \<le> length y" using len by (cases "length y = 2") auto
    define idxs where "idxs = filter (\<lambda>i. even (i - 0)) [0..<nat (int (length y) - 2)]"
    have "0 \<in> set idxs" using three by (simp add: idxs_def)
    then have "simps_term y x 0 \<in> simps_term y x ` set idxs" by (rule imageI)
    then have "simps_term y x 0 \<in> set (map (simps_term y x) idxs)" by (simp only: set_map)
    moreover have "0 < length y" using three by linarith
    then have "y ! 0 = NaN" by (rule at)
    then have "simps_term y x 0 = NaN" by (rule simps_term_NaN)
    ultimately have "NaN \<in> set (map (simps_term y x) idxs)" by simp
    then have "basic_simps y 0 (int (length y) - 2) x = NaN"
      unfolding basic_simps_def idxs_def by (rule fsum_NaN)
    then show ?thesis using False len by (simp add: simps_def Let_def)
  qed
qed

lemma auc_unknown_country:
  assumes ok: "prep_data_stats df kickoff True ''auc'' = Inr (Some out)"
    and r: "r \<in> set out"
    and cn: "row_country r \<noteq> ''England''" "row_country r \<noteq> ''Scotland''"
  shows "row_value r = (if card (times_of df (row_country r) (row_gym r)) < 2 then Fin 0 else NaN)"
proof (cases "card (times_of df (row_country r) (row_gym r)) < 2")
  case True
  then show ?thesis using auc_single_sample [OF ok r] by simp
next
  case False
  from ok obtain rows where w: "auc_wide df True = Inr rows"
    and out: "out = sort_values (auc_groups (to_hours (melt rows)))"
    by (rule auc_out)
  from w obtain rows0 where rows: "rows = normalise fst rows0"
    by (auto simp: auc_wide_def wide_True)
  from r out have "r \<in> set (auc_groups (to_hours (melt rows)))" by (simp add: sort_values_def)
  then obtain c g l
    where req: "r = (c, g, l, auc (filter (\<lambda>r. group_key r = (c, g, l)) (to_hours (melt rows))))"
      and ne: "filter (\<lambda>r. group_key r = (c, g, l)) (to_hours (melt rows)) \<noteq> []"
    by (rule auc_groups_mem)
  define grp where "grp = filter (\<lambda>r. group_key r = (c, g, l)) (to_hours (melt rows))"
  have cg: "row_country r = c" "row_gym r = g" by (simp_all add: req row_country_def row_gym_def)
  have "length grp = card (times_of df c g)"
    unfolding grp_def using w ne by (rule auc_group_length)
  then have len: "2 \<le> length grp" using False cg by simp
  have vals: "\<forall>v\<in>set (map (\<lambda>(c, g, t, l, v). v) grp). v = NaN"
  proof
    fix v assume "v \<in> set (map (\<lambda>(c, g, t, l, v). v) grp)"
    then have "\<exists>k a b. (k, a, b) \<in> set rows \<and> fst k = c \<and> (v = a \<or> v = b)"
      unfolding grp_def by (fastforce simp: filter_group split: if_splits)
    then obtain k a b where "(k, a, b) \<in> set rows" "fst k = c" "v = a \<or> v = b" by blast
    then show "v = NaN" using normalise_unknown [of k a b fst rows0] cn cg rows by auto
  qed
  have "auc grp = NaN" using len vals by (simp add: auc_def Let_def simps_all_NaN)
  then show ?thesis using False by (simp add: req row_value_def grp_def)
qed

lemma prep_data_stats_norm_same_failure:
  "(\<exists>e. prep_data_stats df kickoff True metric = Inl e)
     \<longleftrightarrow> (\<exists>e. prep_data_stats df kickoff False metric = Inl e)"
proof -
  have k: "(\<exists>e. kickoff_wide df kickoff True = Inl e) \<longleftrightarrow> (\<exists>e. kickoff_wide df kickoff False = Inl e)"
    unfolding kickoff_wide_def by (rule wide_isl)
  have a: "(\<exists>e. auc_wide df True = Inl e) \<longleftrightarrow> (\<exists>e. auc_wide df False = Inl e)"
    unfolding auc_wide_def by (rule wide_isl)
  show ?thesis
  proof (cases "metric = ''kick-off''")
    case True
    then show ?thesis using k
      by (cases "kickoff_wide df kickoff True"; cases "kickoff_wide df kickoff False")
        (auto simp: prep_data_stats_def)
  next
    case False
    then show ?thesis using a
      by (cases "auc_wide df True"; cases "auc_wide df False")
        (auto simp: prep_data_stats_def)
  qed
qed

subsection \<open>Helper lemmas: the mean after normalisation\<close>

lemma fadd_not_Fin: "\<forall>r. a \<noteq> Fin r \<Longrightarrow> fadd a x \<noteq> Fin t"
  by (cases a; cases x) simp_all

lemma foldl_fadd_not_Fin: "\<forall>r. a \<noteq> Fin r \<Longrightarrow> foldl fadd a xs \<noteq> Fin t"
proof (induction xs arbitrary: a)
  case Nil
  then show ?case by simp
next
  case (Cons x xs)
  have "\<forall>r. fadd a x \<noteq> Fin r" using Cons.prems by (simp add: fadd_not_Fin)
  then show ?case using Cons.IH by simp
qed

lemma foldl_fadd_Fin:
  "foldl fadd (Fin a) xs = Fin t \<Longrightarrow> \<exists>rs. xs = map Fin rs \<and> t = a + sum_list rs"
proof (induction xs arbitrary: a)
  case Nil
  then show ?case by simp
next
  case (Cons x xs)
  show ?case
  proof (cases x)
    case (Fin b)
    then have "foldl fadd (Fin (a + b)) xs = Fin t" using Cons.prems by simp
    then obtain rs where "xs = map Fin rs" "t = (a + b) + sum_list rs"
      using Cons.IH by blast
    then have "x # xs = map Fin (b # rs) \<and> t = a + sum_list (b # rs)"
      using Fin by simp
    then show ?thesis by (rule exI)
  next
    case PInf
    then have "foldl fadd PInf xs = Fin t" using Cons.prems by simp
    then show ?thesis using foldl_fadd_not_Fin [of PInf xs t] by simp
  next
    case NInf
    then have "foldl fadd NInf xs = Fin t" using Cons.prems by simp
    then show ?thesis using foldl_fadd_not_Fin [of NInf xs t] by simp
  next
    case NaN
    then have "foldl fadd NaN xs = Fin t" using Cons.prems by simp
    then show ?thesis using foldl_fadd_not_Fin [of NaN xs t] by simp
  qed
qed

lemma foldl_fadd_map_Fin: "foldl fadd (Fin a) (map Fin rs) = Fin (a + sum_list rs)"
  by (induction rs arbitrary: a) (simp_all add: add.assoc)

lemma sum_list_divide: "sum_list (map (\<lambda>r. r / q) rs) = sum_list rs / (q :: rat)"
  by (induction rs) (simp_all add: add_divide_distrib)

lemma signed_inf_neq: "signed_inf b \<noteq> Fin r" "signed_inf b \<noteq> NaN"
  by (cases b; simp)+

lemma fdiv_Fin_NaN_iff: "q \<noteq> 0 \<Longrightarrow> fdiv v (Fin q) = NaN \<longleftrightarrow> v = NaN"
  by (cases v) (simp_all add: signed_inf_neq)

text \<open>Dividing the cells by their own mean, finite and not zero, gives cells of mean 1.\<close>

lemma pd_mean_normalised:
  assumes m: "pd_mean vs = Fin q" and q: "q \<noteq> 0"
  shows "pd_mean (map (\<lambda>v. fdiv v (Fin q)) vs) = Fin 1"
proof -
  define present where "present = filter (\<lambda>v. v \<noteq> NaN) vs"
  define n :: rat where "n = of_nat (length present)"
  have ne: "present \<noteq> []" using m by (auto simp: pd_mean_def Let_def present_def)
  then have n0: "n \<noteq> 0" by (simp add: n_def)
  have d: "fdiv (fsum present) (Fin n) = Fin q"
    using m ne by (simp add: pd_mean_def Let_def present_def n_def)
  obtain s where s: "fsum present = Fin s" and sq: "s / n = q"
    using d n0 by (cases "fsum present") (auto simp: signed_inf_neq split: if_splits)
  obtain rs where rs: "present = map Fin rs" and sum: "s = sum_list rs"
    using foldl_fadd_Fin [of 0 present s] s by (auto simp: fsum_def)
  have present': "filter (\<lambda>v. v \<noteq> NaN) (map (\<lambda>v. fdiv v (Fin q)) vs) = map Fin (map (\<lambda>r. r / q) rs)"
  proof -
    have "filter (\<lambda>v. v \<noteq> NaN) (map (\<lambda>v. fdiv v (Fin q)) vs)
        = map (\<lambda>v. fdiv v (Fin q)) present"
      using q by (simp add: filter_map o_def fdiv_Fin_NaN_iff present_def)
    also have "\<dots> = map Fin (map (\<lambda>r. r / q) rs)" using q by (simp add: rs)
    finally show ?thesis .
  qed
  have fs: "fsum (map Fin (map (\<lambda>r. r / q) rs)) = Fin (s / q)"
  proof -
    have "fsum (map Fin (map (\<lambda>r. r / q) rs)) = Fin (0 + sum_list (map (\<lambda>r. r / q) rs))"
      unfolding fsum_def by (rule foldl_fadd_map_Fin)
    then show ?thesis by (simp add: sum_list_divide sum)
  qed
  have ne': "map Fin (map (\<lambda>r. r / q) rs) \<noteq> []" using ne rs by simp
  have len: "Fin (of_nat (length (map Fin (map (\<lambda>r. r / q) rs)))) = Fin n"
    by (simp add: n_def rs)
  have "s = q * n" using sq n0 by (auto simp: field_simps)
  then have one: "s / q / n = 1" using q n0 by simp
  have "pd_mean (map (\<lambda>v. fdiv v (Fin q)) vs)
      = fdiv (fsum (map Fin (map (\<lambda>r. r / q) rs)))
          (Fin (of_nat (length (map Fin (map (\<lambda>r. r / q) rs)))))"
    unfolding pd_mean_def Let_def present' using ne' by (simp only: if_False)
  also have "\<dots> = fdiv (Fin (s / q)) (Fin n)" unfolding fs len ..
  also have "\<dots> = Fin (s / q / n)" using n0 by (simp del: divide_divide_eq_left)
  also have "\<dots> = Fin 1" unfolding one ..
  finally show ?thesis .
qed

lemma baseline_map_known:
  assumes "c = ''England'' \<or> c = ''Scotland''"
  shows "baseline_map (map (\<lambda>(k, w16, w7). (country_of k, w16)) rows) c
           = country_mean country_of rows c"
proof -
  have "map snd (filter (\<lambda>(c', v). c' = x) (map (\<lambda>(k, w16, w7). (country_of k, w16)) rows))
      = map (\<lambda>(k, w16, w7). w16) (filter (\<lambda>(k, w16, w7). country_of k = x) rows)" for x
    by (induction rows) auto
  then show ?thesis using assms by (auto simp: baseline_map_def country_mean_def Let_def)
qed

lemma country_mean_normalise:
  "country_mean country_of (normalise country_of rows) c =
     pd_mean (map (\<lambda>v. fdiv v (baseline_map (map (\<lambda>(k, w16, w7). (country_of k, w16)) rows) c))
        (map (\<lambda>(k, w16, w7). w16) (filter (\<lambda>(k, w16, w7). country_of k = c) rows)))"
proof -
  have "map (\<lambda>(k, w16, w7). w16)
          (filter (\<lambda>(k, w16, w7). country_of k = c)
             (map (\<lambda>(k, w16, w7). (k, fdiv w16 (bm (country_of k)), fdiv w7 (bm (country_of k)))) rows))
      = map (\<lambda>v. fdiv v (bm c))
          (map (\<lambda>(k, w16, w7). w16) (filter (\<lambda>(k, w16, w7). country_of k = c) rows))" for bm
    by (induction rows) auto
  then show ?thesis by (simp add: country_mean_def normalise_def Let_def)
qed

lemma wide_normalised_mean:
  assumes c: "c = ''England'' \<or> c = ''Scotland''" and q: "q \<noteq> 0"
    and w0: "wide keyf country_of dfw False = Inr rows0"
    and m: "country_mean country_of rows0 c = Fin q"
  shows "\<exists>rows. wide keyf country_of dfw True = Inr rows \<and> country_mean country_of rows c = Fin 1"
proof -
  have w: "wide keyf country_of dfw True = Inr (normalise country_of rows0)"
    using w0 by (simp add: wide_True)
  have "country_mean country_of (normalise country_of rows0) c
      = pd_mean (map (\<lambda>v. fdiv v (Fin q))
          (map (\<lambda>(k, w16, w7). w16) (filter (\<lambda>(k, w16, w7). country_of k = c) rows0)))"
    using m by (simp add: country_mean_normalise baseline_map_known [OF c])
  also have "\<dots> = Fin 1"
    using m q unfolding country_mean_def by (rule pd_mean_normalised)
  finally show ?thesis using w by blast
qed

subsection \<open>Helper lemmas: when the call returns, and the rows it then has\<close>

text \<open>When the wide frame exists.\<close>

lemma wide_Inr_iff:
  "(\<exists>rows. wide keyf country_of dfw norm_flag = Inr rows) \<longleftrightarrow>
     distinct (map (\<lambda>r. (keyf r, week r)) dfw) \<and> card (weeks_of dfw) = 7"
  by (auto simp: wide_def pivot_def set_columns_def Let_def card_weeks_of split: sum.splits)

lemma auc_returns_iff:
  "(\<exists>out. prep_data_stats df kickoff norm_flag ''auc'' = Inr (Some out)) \<longleftrightarrow>
     distinct (map (\<lambda>r. (auc_key r, week r)) df) \<and> card (weeks_of df) = 7"
proof -
  have "(\<exists>out. prep_data_stats df kickoff norm_flag ''auc'' = Inr (Some out)) \<longleftrightarrow>
      (\<exists>rows. auc_wide df norm_flag = Inr rows)"
    by (auto simp: prep_data_stats_def split: sum.splits)
  then show ?thesis unfolding auc_wide_def wide_Inr_iff .
qed

lemma kickoff_returns_iff:
  "(\<exists>out. prep_data_stats df kickoff norm_flag ''kick-off'' = Inr (Some out)) \<longleftrightarrow>
     0 \<le> kickoff \<and> kickoff < 24
     \<and> distinct (map (\<lambda>r. (kickoff_key r, week r)) (filter (at_kickoff kickoff) df))
     \<and> card (weeks_of (filter (at_kickoff kickoff) df)) = 7"
proof -
  have "(\<exists>out. prep_data_stats df kickoff norm_flag ''kick-off'' = Inr (Some out)) \<longleftrightarrow>
      0 \<le> kickoff \<and> kickoff < 24 \<and> (\<exists>rows. kickoff_wide df kickoff norm_flag = Inr rows)"
    by (auto simp: prep_data_stats_def split: sum.splits)
  then show ?thesis unfolding kickoff_wide_def wide_Inr_iff .
qed

text \<open>Every gym of the pivoted frame has a row for each of the two labels.\<close>

lemma wide_key_mem:
  assumes w: "wide keyf country_of dfw norm_flag = Inr rows" and x: "x \<in> set dfw"
  shows "\<exists>a b. (keyf x, a, b) \<in> set rows"
proof -
  have "keyf x \<in> set (map fst rows)"
    using x by (simp add: wide_Inr(3) [OF w])
  then show ?thesis by force
qed

lemma kickoff_rows_exist:
  assumes ok: "prep_data_stats df kickoff norm_flag ''kick-off'' = Inr (Some out)"
    and x: "x \<in> set df" "at_kickoff kickoff x"
  shows "\<exists>v. (country x, gym x, ''w1-6'', v) \<in> set out"
    and "\<exists>v. (country x, gym x, ''w7'', v) \<in> set out"
proof -
  from ok obtain rows where w: "kickoff_wide df kickoff norm_flag = Inr rows"
    and out: "out = map (\<lambda>((c, g), l, v). (c, g, l, v)) (melt rows)"
    by (rule kickoff_out)
  have "x \<in> set (filter (at_kickoff kickoff) df)" using x by simp
  then obtain a b where ab: "(kickoff_key x, a, b) \<in> set rows"
    using wide_key_mem [OF w [unfolded kickoff_wide_def]] by blast
  have "(kickoff_key x, ''w1-6'', a) \<in> set (melt rows)" "(kickoff_key x, ''w7'', b) \<in> set (melt rows)"
    using ab by (force simp: melt_def)+
  then have "(country x, gym x, ''w1-6'', a) \<in> set out" "(country x, gym x, ''w7'', b) \<in> set out"
    unfolding out by (force simp: kickoff_key_def)+
  then show "\<exists>v. (country x, gym x, ''w1-6'', v) \<in> set out"
    and "\<exists>v. (country x, gym x, ''w7'', v) \<in> set out" by blast+
qed

lemma kickoff_missing_last_week_row:
  assumes ok: "prep_data_stats df kickoff norm_flag ''kick-off'' = Inr (Some out)"
    and x: "x \<in> set df" "at_kickoff kickoff x"
    and none: "\<not> (\<exists>y\<in>set df. at_kickoff kickoff y \<and> country y = country x \<and> gym y = gym x
                 \<and> week y = Max (weeks_of (filter (at_kickoff kickoff) df)))"
  shows "(country x, gym x, ''w7'', NaN) \<in> set out"
proof -
  obtain v where v: "(country x, gym x, ''w7'', v) \<in> set out"
    using kickoff_rows_exist(2) [OF ok x] by blast
  have "row_value (country x, gym x, ''w7'', v) = NaN"
    using none by (intro kickoff_missing_last_week [OF ok v]) (simp_all add: row_week_def row_country_def row_gym_def)
  then show ?thesis using v by (simp add: row_value_def)
qed

lemma auc_rows_exist:
  assumes ok: "prep_data_stats df kickoff norm_flag ''auc'' = Inr (Some out)"
    and x: "x \<in> set df"
  shows "\<exists>v. (country x, gym x, ''w1-6'', v) \<in> set out"
    and "\<exists>v. (country x, gym x, ''w7'', v) \<in> set out"
proof -
  from ok obtain rows where w: "auc_wide df norm_flag = Inr rows"
    and out: "out = sort_values (auc_groups (to_hours (melt rows)))"
    by (rule auc_out)
  obtain a b where ab: "(auc_key x, a, b) \<in> set rows"
    using wide_key_mem [OF w [unfolded auc_wide_def] x] by blast
  have m: "(auc_key x, ''w1-6'', a) \<in> set (melt rows)" "(auc_key x, ''w7'', b) \<in> set (melt rows)"
    using ab by (force simp: melt_def)+
  have g: "(country x, gym x, l) \<in> set (sort (remdups (map group_key (to_hours (melt rows)))))"
    if "(auc_key x, l, v) \<in> set (melt rows)" for l v
  proof -
    have "group_key (country x, gym x, hours (time_of (datetime x)), l, v) = (country x, gym x, l)"
      by (simp add: group_key_def)
    moreover have "(country x, gym x, hours (time_of (datetime x)), l, v) \<in> set (to_hours (melt rows))"
      using that by (force simp: to_hours_def auc_key_def)
    ultimately show ?thesis by force
  qed
  have r: "\<exists>v. (country x, gym x, l, v) \<in> set out"
    if "(auc_key x, l, v') \<in> set (melt rows)" for l v'
  proof -
    have "(country x, gym x, l, auc (filter (\<lambda>r. group_key r = (country x, gym x, l)) (to_hours (melt rows))))
        \<in> set (auc_groups (to_hours (melt rows)))"
      unfolding auc_groups_def using g [OF that] by force
    then show ?thesis unfolding out sort_values_def by auto
  qed
  show "\<exists>v. (country x, gym x, ''w1-6'', v) \<in> set out" using r [OF m(1)] .
  show "\<exists>v. (country x, gym x, ''w7'', v) \<in> set out" using r [OF m(2)] .
qed

lemma auc_single_sample_rows:
  assumes d: "distinct (map (\<lambda>r. (auc_key r, week r)) df)" and c: "card (weeks_of df) = 7"
    and x: "x \<in> set df" and few: "card (times_of df (country x) (gym x)) < 2"
  shows "\<exists>out. prep_data_stats df kickoff norm_flag ''auc'' = Inr (Some out)
           \<and> (country x, gym x, ''w1-6'', Fin 0) \<in> set out
           \<and> (country x, gym x, ''w7'', Fin 0) \<in> set out"
proof -
  obtain out where ok: "prep_data_stats df kickoff norm_flag ''auc'' = Inr (Some out)"
    using auc_returns_iff [of df kickoff norm_flag] d c by blast
  obtain v1 v2 where v: "(country x, gym x, ''w1-6'', v1) \<in> set out"
      "(country x, gym x, ''w7'', v2) \<in> set out"
    using auc_rows_exist [OF ok x] by blast
  have "row_value (country x, gym x, ''w1-6'', v1) = Fin 0"
    using few by (intro auc_single_sample [OF ok v(1)]) (simp add: row_country_def row_gym_def)
  moreover have "row_value (country x, gym x, ''w7'', v2) = Fin 0"
    using few by (intro auc_single_sample [OF ok v(2)]) (simp add: row_country_def row_gym_def)
  ultimately show ?thesis using ok v by (auto simp: row_value_def)
qed

subsection \<open>Helper lemmas: the mean after a division that cannot give 1\<close>

lemma pd_mean_all_NaN: "\<forall>v\<in>set vs. v = NaN \<Longrightarrow> pd_mean vs = NaN"
  by (simp add: pd_mean_def Let_def filter_empty_conv)

lemma fdiv_not_Fin: "\<forall>r. s \<noteq> Fin r \<Longrightarrow> fdiv s (Fin n) \<noteq> Fin t"
  by (cases s) (simp_all add: signed_inf_neq)

lemma pd_mean_no_Fin:
  assumes "\<forall>v\<in>set vs. \<forall>r. v \<noteq> Fin r"
  shows "pd_mean vs \<noteq> Fin t"
proof (cases "filter (\<lambda>v. v \<noteq> NaN) vs")
  case Nil
  then show ?thesis by (simp add: pd_mean_def Let_def)
next
  case (Cons x xs)
  have "x \<in> set (filter (\<lambda>v. v \<noteq> NaN) vs)" using Cons by simp
  then have "\<forall>r. x \<noteq> Fin r" using assms by simp
  then have "\<forall>r. fadd (Fin 0) x \<noteq> Fin r" by (cases x) simp_all
  then have "\<forall>r. foldl fadd (fadd (Fin 0) x) xs \<noteq> Fin r"
    using foldl_fadd_not_Fin by blast
  then have "\<forall>r. fsum (x # xs) \<noteq> Fin r" by (simp add: fsum_def)
  then have "fdiv (fsum (x # xs)) (Fin (of_nat (length (x # xs)))) \<noteq> Fin t"
    by (rule fdiv_not_Fin)
  then show ?thesis using Cons by (simp add: pd_mean_def Let_def)
qed

lemma foldl_fadd_zeros: "\<forall>v\<in>set xs. v = Fin 0 \<Longrightarrow> foldl fadd (Fin 0) xs = Fin 0"
  by (induction xs) simp_all

lemma pd_mean_zeros:
  assumes "\<forall>v\<in>set vs. v = Fin 0 \<or> v = NaN"
  shows "pd_mean vs = Fin 0 \<or> pd_mean vs = NaN"
proof (cases "filter (\<lambda>v. v \<noteq> NaN) vs = []")
  case True
  then show ?thesis by (simp add: pd_mean_def Let_def)
next
  case False
  have "\<forall>v\<in>set (filter (\<lambda>v. v \<noteq> NaN) vs). v = Fin 0" using assms by auto
  then have "fsum (filter (\<lambda>v. v \<noteq> NaN) vs) = Fin 0"
    unfolding fsum_def by (rule foldl_fadd_zeros)
  then show ?thesis using False by (simp add: pd_mean_def Let_def)
qed

text \<open>Dividing by a divisor that is not a finite number other than zero never gives mean 1.\<close>

lemma pd_mean_bad_divisor:
  assumes "\<not> (\<exists>q. q \<noteq> 0 \<and> b = Fin q)"
  shows "pd_mean (map (\<lambda>v. fdiv v b) vs) \<noteq> Fin 1"
proof (cases b)
  case (Fin q)
  then have q: "b = Fin 0" using assms by auto
  have "\<forall>v\<in>set (map (\<lambda>v. fdiv v b) vs). \<forall>r. v \<noteq> Fin r"
  proof (intro ballI allI)
    fix v r assume "v \<in> set (map (\<lambda>v. fdiv v b) vs)"
    then obtain u where "v = fdiv u (Fin 0)" using q by auto
    then show "v \<noteq> Fin r" by (cases u) (simp_all add: signed_inf_neq)
  qed
  then show ?thesis by (rule pd_mean_no_Fin)
next
  case PInf
  have "\<forall>v\<in>set (map (\<lambda>v. fdiv v b) vs). v = Fin 0 \<or> v = NaN"
  proof
    fix v assume "v \<in> set (map (\<lambda>v. fdiv v b) vs)"
    then obtain u where "v = fdiv u PInf" using PInf by auto
    then show "v = Fin 0 \<or> v = NaN" by (cases u) simp_all
  qed
  then have "pd_mean (map (\<lambda>v. fdiv v b) vs) = Fin 0 \<or> pd_mean (map (\<lambda>v. fdiv v b) vs) = NaN"
    by (rule pd_mean_zeros)
  then show ?thesis by auto
next
  case NInf
  have "\<forall>v\<in>set (map (\<lambda>v. fdiv v b) vs). v = Fin 0 \<or> v = NaN"
  proof
    fix v assume "v \<in> set (map (\<lambda>v. fdiv v b) vs)"
    then obtain u where "v = fdiv u NInf" using NInf by auto
    then show "v = Fin 0 \<or> v = NaN" by (cases u) simp_all
  qed
  then have "pd_mean (map (\<lambda>v. fdiv v b) vs) = Fin 0 \<or> pd_mean (map (\<lambda>v. fdiv v b) vs) = NaN"
    by (rule pd_mean_zeros)
  then show ?thesis by auto
next
  case NaN
  then have "pd_mean (map (\<lambda>v. fdiv v b) vs) = NaN"
    by (intro pd_mean_all_NaN) (auto simp: fdiv_NaN_right)
  then show ?thesis by simp
qed

lemma wide_normalised_mean_iff:
  assumes w0: "wide keyf country_of dfw False = Inr rows0"
  shows "\<exists>rows. wide keyf country_of dfw True = Inr rows
           \<and> (country_mean country_of rows c = Fin 1 \<longleftrightarrow>
                (c = ''England'' \<or> c = ''Scotland'')
                \<and> (\<exists>q. q \<noteq> 0 \<and> country_mean country_of rows0 c = Fin q))
           \<and> (c \<noteq> ''England'' \<and> c \<noteq> ''Scotland''
                \<longrightarrow> country_mean country_of rows c = NaN)"
proof -
  define vs where "vs = map (\<lambda>(k, w16, w7). w16) (filter (\<lambda>(k, w16, w7). country_of k = c) rows0)"
  define b where "b = baseline_map (map (\<lambda>(k, w16, w7). (country_of k, w16)) rows0) c"
  have w: "wide keyf country_of dfw True = Inr (normalise country_of rows0)"
    using w0 by (simp add: wide_True)
  have m: "country_mean country_of (normalise country_of rows0) c = pd_mean (map (\<lambda>v. fdiv v b) vs)"
    by (simp add: country_mean_normalise vs_def b_def)
  have other: "country_mean country_of (normalise country_of rows0) c = NaN"
    if "c \<noteq> ''England''" "c \<noteq> ''Scotland''"
  proof -
    have "b = NaN" using that by (simp add: b_def baseline_map_other)
    then show ?thesis unfolding m by (intro pd_mean_all_NaN) (auto simp: fdiv_NaN_right)
  qed
  have known: "b = country_mean country_of rows0 c" if "c = ''England'' \<or> c = ''Scotland''"
    unfolding b_def using that by (rule baseline_map_known)
  have iff: "country_mean country_of (normalise country_of rows0) c = Fin 1 \<longleftrightarrow>
                (c = ''England'' \<or> c = ''Scotland'')
                \<and> (\<exists>q. q \<noteq> 0 \<and> country_mean country_of rows0 c = Fin q)"
  proof
    assume one: "country_mean country_of (normalise country_of rows0) c = Fin 1"
    have c: "c = ''England'' \<or> c = ''Scotland''" using one other by fastforce
    have "\<exists>q. q \<noteq> 0 \<and> b = Fin q" using one pd_mean_bad_divisor [of b vs] unfolding m by blast
    then show "(c = ''England'' \<or> c = ''Scotland'')
                \<and> (\<exists>q. q \<noteq> 0 \<and> country_mean country_of rows0 c = Fin q)"
      using c known by simp
  next
    assume "(c = ''England'' \<or> c = ''Scotland'')
                \<and> (\<exists>q. q \<noteq> 0 \<and> country_mean country_of rows0 c = Fin q)"
    then obtain q where c: "c = ''England'' \<or> c = ''Scotland''" and q: "q \<noteq> 0"
      and mq: "country_mean country_of rows0 c = Fin q" by blast
    obtain rows where "wide keyf country_of dfw True = Inr rows"
      "country_mean country_of rows c = Fin 1"
      using wide_normalised_mean [OF c q w0 mq] by blast
    then show "country_mean country_of (normalise country_of rows0) c = Fin 1" using w by simp
  qed
  show ?thesis using w iff other by blast
qed

subsection \<open>Evaluated examples\<close>

text \<open>
  The example frames are results of \<open>prep_data\<close>: the hourly rows of eight Fridays give
  the frame of constant occupancy (the first Friday is dropped by the branch of line 39),
  and seven Fridays with a fortnight missing keep the week numbers 1 to 6 and 9.
\<close>

lemma prep_data_raw_constant_facility:
  "prep_data raw_constant_facility june_18 = Inr (constant_facility ''England'' ''gymA'')"
  by code_simp

lemma prep_data_two_weeks_missing:
  "prep_data raw_two_weeks_missing july_2 = Inr two_weeks_missing"
  by code_simp

text \<open>
  Two English gyms with baseline means 40 and 60: the country mean is 50 and the
  normalised values are 0.8 and 1.2.
\<close>

lemma kickoff_two_english_gyms:
  "prep_data_stats two_english_gyms 20 True ''kick-off'' =
     Inr (Some [(''England'', ''gymA'', ''w1-6'', Fin (4 / 5)),
                (''England'', ''gymB'', ''w1-6'', Fin (6 / 5)),
                (''England'', ''gymA'', ''w7'', Fin (4 / 5)),
                (''England'', ''gymB'', ''w7'', Fin (6 / 5))])"
  by code_simp

subsection \<open>An unrecognised metric (lines 143 to 145)\<close>

text \<open>
  Against C1 as stated: with the metric \<open>median\<close> the call raises nothing; it returns
  None.
\<close>

theorem prep_data_stats_median_returns_None:
  "prep_data_stats (constant_facility ''England'' ''gymA'') 20 True ''median'' = Inr None"
  by (simp add: prep_data_stats_def)

text \<open>
  C1, amended: for every frame and every metric other than \<open>kick-off\<close> and \<open>auc\<close>,
  \<open>prep_data_stats\<close> raises no error; it prints the message of line 144 and returns None.
\<close>

theorem prep_data_stats_other_metric:
  "metric \<noteq> ''kick-off'' \<Longrightarrow> metric \<noteq> ''auc'' \<Longrightarrow>
     prep_data_stats df kickoff norm_flag metric = Inr None
     \<and> printed metric = [''`metric` must be 'kick-off' or 'auc'.'']"
  by (simp add: prep_data_stats_def printed_def)

text \<open>
  The metric is compared as written: \<open>AUC\<close> in capitals is not \<open>auc\<close>.
\<close>

theorem prep_data_stats_other_metric_witness:
  "''AUC'' \<noteq> ''kick-off'' \<and> ''AUC'' \<noteq> ''auc''
   \<and> prep_data_stats (constant_facility ''England'' ''gymA'') 20 True ''AUC'' = Inr None
   \<and> printed ''AUC'' = [''`metric` must be 'kick-off' or 'auc'.'']"
proof -
  have other: "''AUC'' \<noteq> ''kick-off''" "''AUC'' \<noteq> ''auc''" by simp_all
  show ?thesis
    using other prep_data_stats_other_metric
      [OF other, of "constant_facility ''England'' ''gymA''" 20 True]
    by simp
qed

subsection \<open>Normalisation (lines 97 to 102 and 125 to 130)\<close>

text \<open>
  Against C5 as stated: an English gym that stands empty has baseline mean 0, and a Welsh gym
  has no baseline at all; after normalisation the \<open>w1-6\<close> values of both countries are NaN,
  and so is their mean.
\<close>

theorem normalised_mean_not_one:
  "kickoff_wide empty_gym_and_wales 20 True =
     Inr [((''England'', ''gymA''), NaN, NaN), ((''Wales'', ''gymC''), NaN, NaN)]
   \<and> country_mean fst [((''England'', ''gymA''), NaN, NaN), ((''Wales'', ''gymC''), NaN, NaN)]
        ''England'' = NaN
   \<and> country_mean fst [((''England'', ''gymA''), NaN, NaN), ((''Wales'', ''gymC''), NaN, NaN)]
        ''Wales'' = NaN"
  by code_simp

text \<open>
  C5, amended: when \<open>norm\<close> is set, in both branches, the mean of the normalised \<open>w1-6\<close>
  over the rows of a country in the wide frame is 1 exactly when the country is England or
  Scotland and the mean of \<open>w1-6\<close> over those rows before normalisation is a finite number
  other than zero; for any other country that mean is NaN. The arithmetic is exact here;
  the rounding of the floats is not modelled.
\<close>

theorem normalised_baseline_mean:
  "(kickoff_wide df kickoff False = Inr rows0 \<longrightarrow>
      (\<exists>rows. kickoff_wide df kickoff True = Inr rows
         \<and> (country_mean fst rows c = Fin 1 \<longleftrightarrow>
              (c = ''England'' \<or> c = ''Scotland'')
              \<and> (\<exists>q. q \<noteq> 0 \<and> country_mean fst rows0 c = Fin q))
         \<and> (c \<noteq> ''England'' \<and> c \<noteq> ''Scotland'' \<longrightarrow> country_mean fst rows c = NaN)))
   \<and> (auc_wide df False = Inr rows1 \<longrightarrow>
      (\<exists>rows. auc_wide df True = Inr rows
         \<and> (country_mean fst rows c = Fin 1 \<longleftrightarrow>
              (c = ''England'' \<or> c = ''Scotland'')
              \<and> (\<exists>q. q \<noteq> 0 \<and> country_mean fst rows1 c = Fin q))
         \<and> (c \<noteq> ''England'' \<and> c \<noteq> ''Scotland'' \<longrightarrow> country_mean fst rows c = NaN)))"
  using wide_normalised_mean_iff [of kickoff_key fst "filter (at_kickoff kickoff) df" rows0 c]
    wide_normalised_mean_iff [of auc_key fst df rows1 c]
  unfolding kickoff_wide_def auc_wide_def by blast

text \<open>
  England in the frame of the two gyms: the baseline mean is 60 at kick-off and 50 over
  the rows of the AUC branch, and the normalised mean is 1 in both. Wales beside England:
  the mean of the Welsh rows is NaN.
\<close>

theorem normalised_baseline_mean_witness:
  "kickoff_wide one_and_two_samples 20 False =
     Inr [((''England'', ''gymA''), Fin 60, Fin 60), ((''Scotland'', ''gymB''), Fin 30, Fin 30)]
   \<and> country_mean fst
        [((''England'', ''gymA''), Fin 60, Fin 60), ((''Scotland'', ''gymB''), Fin 30, Fin 30)]
        ''England'' = Fin 60
   \<and> auc_wide one_and_two_samples False =
     Inr [((''England'', ''gymA'', 19::int, 0::int, 0::int), Fin 40, Fin 40),
          ((''England'', ''gymA'', 20, 0, 0), Fin 60, Fin 60),
          ((''Scotland'', ''gymB'', 20, 0, 0), Fin 30, Fin 30)]
   \<and> country_mean fst
        [((''England'', ''gymA'', 19::int, 0::int, 0::int), Fin 40, Fin 40),
         ((''England'', ''gymA'', 20, 0, 0), Fin 60, Fin 60),
         ((''Scotland'', ''gymB'', 20, 0, 0), Fin 30, Fin 30)] ''England'' = Fin 50
   \<and> (\<exists>rows. kickoff_wide one_and_two_samples 20 True = Inr rows
         \<and> country_mean fst rows ''England'' = Fin 1)
   \<and> (\<exists>rows. auc_wide one_and_two_samples True = Inr rows
         \<and> country_mean fst rows ''England'' = Fin 1)
   \<and> kickoff_wide england_and_wales 20 False =
     Inr [((''England'', ''gymA''), Fin 40, Fin 40), ((''Wales'', ''gymC''), Fin 60, Fin 60)]
   \<and> auc_wide england_and_wales False =
     Inr [((''England'', ''gymA'', 20::int, 0::int, 0::int), Fin 40, Fin 40),
          ((''Wales'', ''gymC'', 20, 0, 0), Fin 60, Fin 60)]
   \<and> ''Wales'' \<noteq> ''England'' \<and> ''Wales'' \<noteq> ''Scotland''
   \<and> (\<exists>rows. kickoff_wide england_and_wales 20 True = Inr rows
         \<and> country_mean fst rows ''Wales'' = NaN)
   \<and> (\<exists>rows. auc_wide england_and_wales True = Inr rows
         \<and> country_mean fst rows ''Wales'' = NaN)"
proof -
  have k: "kickoff_wide one_and_two_samples 20 False =
     Inr [((''England'', ''gymA''), Fin 60, Fin 60), ((''Scotland'', ''gymB''), Fin 30, Fin 30)]"
    by code_simp
  have km: "country_mean fst
        [((''England'', ''gymA''), Fin 60, Fin 60), ((''Scotland'', ''gymB''), Fin 30, Fin 30)]
        ''England'' = Fin 60"
    by code_simp
  have a: "auc_wide one_and_two_samples False =
     Inr [((''England'', ''gymA'', 19::int, 0::int, 0::int), Fin 40, Fin 40),
          ((''England'', ''gymA'', 20, 0, 0), Fin 60, Fin 60),
          ((''Scotland'', ''gymB'', 20, 0, 0), Fin 30, Fin 30)]"
    by code_simp
  have am: "country_mean fst
        [((''England'', ''gymA'', 19::int, 0::int, 0::int), Fin 40, Fin 40),
         ((''England'', ''gymA'', 20, 0, 0), Fin 60, Fin 60),
         ((''Scotland'', ''gymB'', 20, 0, 0), Fin 30, Fin 30)] ''England'' = Fin 50"
    by code_simp
  have wk: "kickoff_wide england_and_wales 20 False =
     Inr [((''England'', ''gymA''), Fin 40, Fin 40), ((''Wales'', ''gymC''), Fin 60, Fin 60)]"
    by code_simp
  have wa: "auc_wide england_and_wales False =
     Inr [((''England'', ''gymA'', 20::int, 0::int, 0::int), Fin 40, Fin 40),
          ((''Wales'', ''gymC'', 20, 0, 0), Fin 60, Fin 60)]"
    by code_simp
  have w: "''Wales'' \<noteq> ''England''" "''Wales'' \<noteq> ''Scotland''" by simp_all
  have q: "(60::rat) \<noteq> 0" "(50::rat) \<noteq> 0" by simp_all
  have e1: "\<exists>rows. kickoff_wide one_and_two_samples 20 True = Inr rows
         \<and> country_mean fst rows ''England'' = Fin 1"
    using normalised_baseline_mean [of one_and_two_samples 20
        "[((''England'', ''gymA''), Fin 60, Fin 60), ((''Scotland'', ''gymB''), Fin 30, Fin 30)]"
        "''England''"] k km q
    by auto
  have e2: "\<exists>rows. auc_wide one_and_two_samples True = Inr rows
         \<and> country_mean fst rows ''England'' = Fin 1"
    using normalised_baseline_mean [of one_and_two_samples 20 _ "''England''"
        "[((''England'', ''gymA'', 19, 0, 0), Fin 40, Fin 40),
          ((''England'', ''gymA'', 20, 0, 0), Fin 60, Fin 60),
          ((''Scotland'', ''gymB'', 20, 0, 0), Fin 30, Fin 30)]"] a am q
    by auto
  have e3: "\<exists>rows. kickoff_wide england_and_wales 20 True = Inr rows
         \<and> country_mean fst rows ''Wales'' = NaN"
    using normalised_baseline_mean [of england_and_wales 20
        "[((''England'', ''gymA''), Fin 40, Fin 40), ((''Wales'', ''gymC''), Fin 60, Fin 60)]"
        "''Wales''"] wk w
    by auto
  have e4: "\<exists>rows. auc_wide england_and_wales True = Inr rows
         \<and> country_mean fst rows ''Wales'' = NaN"
    using normalised_baseline_mean [of england_and_wales 20 _ "''Wales''"
        "[((''England'', ''gymA'', 20, 0, 0), Fin 40, Fin 40),
          ((''Wales'', ''gymC'', 20, 0, 0), Fin 60, Fin 60)]"] wa w
    by auto
  show ?thesis using k km a am wk wa w e1 e2 e3 e4 by blast
qed

subsection \<open>Groups with a single sample (lines 72 to 75 and 137 to 142)\<close>

text \<open>
  Against C6 as stated: gym B has a single time of day, 20:00, with occupancy 30; the call
  raises nothing and gives the gym the area 0.
\<close>

theorem auc_single_sample_is_zero:
  "prep_data_stats one_and_two_samples 20 False ''auc'' =
     Inr (Some [(''England'', ''gymA'', ''w1-6'', Fin 50), (''Scotland'', ''gymB'', ''w1-6'', Fin 0),
                (''England'', ''gymA'', ''w7'', Fin 50), (''Scotland'', ''gymB'', ''w7'', Fin 0)])
   \<and> card (times_of one_and_two_samples ''Scotland'' ''gymB'') = 1"
  by code_simp

text \<open>
  C6, amended: in the AUC branch, a group of a gym with fewer than two distinct times of
  day (times of day as the pivot keeps them, to the second) raises no error. The call
  returns a frame exactly when no two rows share country, gym, time of day and week and
  the frame has seven distinct weeks, whatever the number of times of day of a gym; then
  every row of a gym with fewer than two distinct times of day has the value 0.0, and the
  result has the rows (country, gym, \<open>w1-6\<close>, 0.0) and (country, gym, \<open>w7\<close>, 0.0) for
  every such gym of the frame.
\<close>

theorem auc_fewer_than_two_samples:
  "((\<exists>out. prep_data_stats df kickoff norm_flag ''auc'' = Inr (Some out)) \<longleftrightarrow>
      distinct (map (\<lambda>r. (auc_key r, week r)) df) \<and> card (weeks_of df) = 7)
   \<and> (prep_data_stats df kickoff norm_flag ''auc'' = Inr (Some out) \<longrightarrow>
        (\<forall>r\<in>set out. card (times_of df (row_country r) (row_gym r)) < 2
            \<longrightarrow> row_value r = Fin 0))
   \<and> (distinct (map (\<lambda>r. (auc_key r, week r)) df) \<and> card (weeks_of df) = 7
        \<and> x \<in> set df \<and> card (times_of df (country x) (gym x)) < 2 \<longrightarrow>
        (\<exists>out. prep_data_stats df kickoff norm_flag ''auc'' = Inr (Some out)
           \<and> (country x, gym x, ''w1-6'', Fin 0) \<in> set out
           \<and> (country x, gym x, ''w7'', Fin 0) \<in> set out))"
  using auc_returns_iff [of df kickoff norm_flag] auc_single_sample [of df kickoff norm_flag out]
    auc_single_sample_rows [of df x kickoff norm_flag]
  by blast

text \<open>
  The same frame, normalised: it has no duplicate entry and seven weeks, gym B of Scotland
  has one time of day, and the result has its two rows with the value 0.
\<close>

theorem auc_fewer_than_two_samples_witness:
  "distinct (map (\<lambda>r. (auc_key r, week r)) one_and_two_samples)
   \<and> card (weeks_of one_and_two_samples) = 7
   \<and> sample ''Scotland'' ''gymB'' 7 20 0 30 \<in> set one_and_two_samples
   \<and> card (times_of one_and_two_samples ''Scotland'' ''gymB'') < 2
   \<and> prep_data_stats one_and_two_samples 20 True ''auc'' =
     Inr (Some [(''England'', ''gymA'', ''w1-6'', Fin 1), (''Scotland'', ''gymB'', ''w1-6'', Fin 0),
                (''England'', ''gymA'', ''w7'', Fin 1), (''Scotland'', ''gymB'', ''w7'', Fin 0)])
   \<and> (\<exists>out. prep_data_stats one_and_two_samples 20 True ''auc'' = Inr (Some out)
         \<and> (''Scotland'', ''gymB'', ''w1-6'', Fin 0) \<in> set out
         \<and> (''Scotland'', ''gymB'', ''w7'', Fin 0) \<in> set out)"
proof -
  have d: "distinct (map (\<lambda>r. (auc_key r, week r)) one_and_two_samples)"
    by code_simp
  have c: "card (weeks_of one_and_two_samples) = 7"
    by code_simp
  have x: "sample ''Scotland'' ''gymB'' 7 20 0 30 \<in> set one_and_two_samples"
    by (simp add: one_and_two_samples_def)
  have few: "card (times_of one_and_two_samples ''Scotland'' ''gymB'') < 2"
    by code_simp
  have run: "prep_data_stats one_and_two_samples 20 True ''auc'' =
     Inr (Some [(''England'', ''gymA'', ''w1-6'', Fin 1), (''Scotland'', ''gymB'', ''w1-6'', Fin 0),
                (''England'', ''gymA'', ''w7'', Fin 1), (''Scotland'', ''gymB'', ''w7'', Fin 0)])"
    by code_simp
  have cg: "country (sample ''Scotland'' ''gymB'' 7 20 0 30) = ''Scotland''"
    "gym (sample ''Scotland'' ''gymB'' 7 20 0 30) = ''gymB''"
    by (simp_all add: sample_def)
  have "\<exists>out. prep_data_stats one_and_two_samples 20 True ''auc'' = Inr (Some out)
         \<and> (''Scotland'', ''gymB'', ''w1-6'', Fin 0) \<in> set out
         \<and> (''Scotland'', ''gymB'', ''w7'', Fin 0) \<in> set out"
    using auc_fewer_than_two_samples
      [of one_and_two_samples 20 True _ "sample ''Scotland'' ''gymB'' 7 20 0 30"] d c x few
    unfolding cg by blast
  then show ?thesis using d c x few run by blast
qed

subsection \<open>Exact samples at kick-off (lines 80 to 107)\<close>

text \<open>
  Against C7 as stated: gym B has no sample at 20:00 on the match day, and is not absent
  from the result for that week: the frame has a row of gym B for \<open>w7\<close>, with the value
  NaN.
\<close>

theorem kickoff_missing_sample_row_present:
  "prep_data_stats gym_b_misses_match_day 20 False ''kick-off'' =
     Inr (Some [(''England'', ''gymA'', ''w1-6'', Fin 50), (''England'', ''gymB'', ''w1-6'', Fin 50),
                (''England'', ''gymA'', ''w7'', Fin 50), (''England'', ''gymB'', ''w7'', NaN)])
   \<and> filter (\<lambda>x. at_kickoff 20 x \<and> gym x = ''gymB'' \<and> week x = 7) gym_b_misses_match_day = []"
  by code_simp

text \<open>
  C7, amended: in the kick-off branch only the rows sampled at exactly
  \<open>kickoff\<close>:00:00 contribute: the result is that of the frame restricted to them, and
  the call returns a frame exactly when the hour is in 0..23, no two of these rows share
  country, gym and week, and they have seven distinct weeks. A gym with no such row in any
  week is absent from the result. A gym with such a row in some week has a row for
  \<open>w1-6\<close> and a row for \<open>w7\<close>; if it has none in the last of the seven weeks, it is not
  absent for that week: its \<open>w7\<close> row is there, with the value NaN. For a gym with
  occupancy 50 at every full hour of seven weeks, any kick-off hour in 0..23 and no
  normalisation, the result is exactly the rows (country, gym, \<open>w1-6\<close>, 50.0) and
  (country, gym, \<open>w7\<close>, 50.0).
\<close>

theorem kickoff_exact_samples_only:
  "prep_data_stats df kickoff norm_flag ''kick-off'' =
     prep_data_stats (filter (at_kickoff kickoff) df) kickoff norm_flag ''kick-off''
   \<and> ((\<exists>res. prep_data_stats df kickoff norm_flag ''kick-off'' = Inr (Some res)) \<longleftrightarrow>
        0 \<le> kickoff \<and> kickoff < 24
        \<and> distinct (map (\<lambda>r. (kickoff_key r, week r)) (filter (at_kickoff kickoff) df))
        \<and> card (weeks_of (filter (at_kickoff kickoff) df)) = 7)
   \<and> (prep_data_stats df kickoff norm_flag ''kick-off'' = Inr (Some out) \<longrightarrow>
        (\<forall>r\<in>set out. \<exists>x\<in>set df. at_kickoff kickoff x \<and> country x = row_country r
                          \<and> gym x = row_gym r)
      \<and> (\<forall>x\<in>set df. at_kickoff kickoff x \<longrightarrow>
            (\<exists>v. (country x, gym x, ''w1-6'', v) \<in> set out)
            \<and> (\<exists>v. (country x, gym x, ''w7'', v) \<in> set out))
      \<and> (\<forall>x\<in>set df.
            at_kickoff kickoff x
            \<and> \<not> (\<exists>y\<in>set df. at_kickoff kickoff y \<and> country y = country x \<and> gym y = gym x
                    \<and> week y = Max (weeks_of (filter (at_kickoff kickoff) df)))
            \<longrightarrow> (country x, gym x, ''w7'', NaN) \<in> set out)
      \<and> (\<forall>r\<in>set out.
            row_week r = ''w7''
            \<and> \<not> (\<exists>x\<in>set df. at_kickoff kickoff x \<and> country x = row_country r \<and> gym x = row_gym r
                    \<and> week x = Max (weeks_of (filter (at_kickoff kickoff) df)))
            \<longrightarrow> row_value r = NaN))
   \<and> (0 \<le> hr \<and> hr < 24 \<longrightarrow>
        prep_data_stats (constant_facility c g) hr False ''kick-off'' =
          Inr (Some [(c, g, ''w1-6'', Fin 50), (c, g, ''w7'', Fin 50)]))"
proof -
  have a: "prep_data_stats df kickoff norm_flag ''kick-off'' =
     prep_data_stats (filter (at_kickoff kickoff) df) kickoff norm_flag ''kick-off''"
    by (rule kickoff_filter_idem)
  have b: "(\<exists>res. prep_data_stats df kickoff norm_flag ''kick-off'' = Inr (Some res)) \<longleftrightarrow>
        0 \<le> kickoff \<and> kickoff < 24
        \<and> distinct (map (\<lambda>r. (kickoff_key r, week r)) (filter (at_kickoff kickoff) df))
        \<and> card (weeks_of (filter (at_kickoff kickoff) df)) = 7"
    by (rule kickoff_returns_iff)
  have c1: "\<forall>r\<in>set out. \<exists>x\<in>set df. at_kickoff kickoff x \<and> country x = row_country r
                          \<and> gym x = row_gym r"
    if "prep_data_stats df kickoff norm_flag ''kick-off'' = Inr (Some out)"
    using kickoff_rows_have_sample [OF that] by blast
  have c2: "\<forall>x\<in>set df. at_kickoff kickoff x \<longrightarrow>
            (\<exists>v. (country x, gym x, ''w1-6'', v) \<in> set out)
            \<and> (\<exists>v. (country x, gym x, ''w7'', v) \<in> set out)"
    if "prep_data_stats df kickoff norm_flag ''kick-off'' = Inr (Some out)"
    using kickoff_rows_exist [OF that] by blast
  have c3: "\<forall>x\<in>set df.
            at_kickoff kickoff x
            \<and> \<not> (\<exists>y\<in>set df. at_kickoff kickoff y \<and> country y = country x \<and> gym y = gym x
                    \<and> week y = Max (weeks_of (filter (at_kickoff kickoff) df)))
            \<longrightarrow> (country x, gym x, ''w7'', NaN) \<in> set out"
    if "prep_data_stats df kickoff norm_flag ''kick-off'' = Inr (Some out)"
    using kickoff_missing_last_week_row [OF that] by blast
  have c4: "\<forall>r\<in>set out.
            row_week r = ''w7''
            \<and> \<not> (\<exists>x\<in>set df. at_kickoff kickoff x \<and> country x = row_country r \<and> gym x = row_gym r
                    \<and> week x = Max (weeks_of (filter (at_kickoff kickoff) df)))
            \<longrightarrow> row_value r = NaN"
    if "prep_data_stats df kickoff norm_flag ''kick-off'' = Inr (Some out)"
    using kickoff_missing_last_week [OF that] by blast
  have d: "0 \<le> hr \<and> hr < 24 \<longrightarrow>
        prep_data_stats (constant_facility c g) hr False ''kick-off'' =
          Inr (Some [(c, g, ''w1-6'', Fin 50), (c, g, ''w7'', Fin 50)])"
    using kickoff_constant_facility [of hr c g] by blast
  have c: "prep_data_stats df kickoff norm_flag ''kick-off'' = Inr (Some out) \<longrightarrow>
        (\<forall>r\<in>set out. \<exists>x\<in>set df. at_kickoff kickoff x \<and> country x = row_country r
                          \<and> gym x = row_gym r)
      \<and> (\<forall>x\<in>set df. at_kickoff kickoff x \<longrightarrow>
            (\<exists>v. (country x, gym x, ''w1-6'', v) \<in> set out)
            \<and> (\<exists>v. (country x, gym x, ''w7'', v) \<in> set out))
      \<and> (\<forall>x\<in>set df.
            at_kickoff kickoff x
            \<and> \<not> (\<exists>y\<in>set df. at_kickoff kickoff y \<and> country y = country x \<and> gym y = gym x
                    \<and> week y = Max (weeks_of (filter (at_kickoff kickoff) df)))
            \<longrightarrow> (country x, gym x, ''w7'', NaN) \<in> set out)
      \<and> (\<forall>r\<in>set out.
            row_week r = ''w7''
            \<and> \<not> (\<exists>x\<in>set df. at_kickoff kickoff x \<and> country x = row_country r \<and> gym x = row_gym r
                    \<and> week x = Max (weeks_of (filter (at_kickoff kickoff) df)))
            \<longrightarrow> row_value r = NaN)"
  proof
    assume ok: "prep_data_stats df kickoff norm_flag ''kick-off'' = Inr (Some out)"
    show "(\<forall>r\<in>set out. \<exists>x\<in>set df. at_kickoff kickoff x \<and> country x = row_country r
                          \<and> gym x = row_gym r)
      \<and> (\<forall>x\<in>set df. at_kickoff kickoff x \<longrightarrow>
            (\<exists>v. (country x, gym x, ''w1-6'', v) \<in> set out)
            \<and> (\<exists>v. (country x, gym x, ''w7'', v) \<in> set out))
      \<and> (\<forall>x\<in>set df.
            at_kickoff kickoff x
            \<and> \<not> (\<exists>y\<in>set df. at_kickoff kickoff y \<and> country y = country x \<and> gym y = gym x
                    \<and> week y = Max (weeks_of (filter (at_kickoff kickoff) df)))
            \<longrightarrow> (country x, gym x, ''w7'', NaN) \<in> set out)
      \<and> (\<forall>r\<in>set out.
            row_week r = ''w7''
            \<and> \<not> (\<exists>x\<in>set df. at_kickoff kickoff x \<and> country x = row_country r \<and> gym x = row_gym r
                    \<and> week x = Max (weeks_of (filter (at_kickoff kickoff) df)))
            \<longrightarrow> row_value r = NaN)"
      by (rule conjI [OF c1 [OF ok] conjI [OF c2 [OF ok] conjI [OF c3 [OF ok] c4 [OF ok]]]])
  qed
  show ?thesis by (rule conjI [OF a conjI [OF b conjI [OF c d]]])
qed

text \<open>
  Gym B (no sample at 20:00 in week 7) has its \<open>w7\<close> row with NaN, gym C (sampled at
  20:30 only) has no row, and the gym of constant occupancy 50 has its two rows.
\<close>

theorem kickoff_exact_samples_only_witness:
  "prep_data_stats gym_b_misses_match_day 20 True ''kick-off'' =
     Inr (Some [(''England'', ''gymA'', ''w1-6'', Fin 1), (''England'', ''gymB'', ''w1-6'', Fin 1),
                (''England'', ''gymA'', ''w7'', Fin 1), (''England'', ''gymB'', ''w7'', NaN)])
   \<and> prep_data_stats (filter (at_kickoff 20) gym_b_misses_match_day) 20 True ''kick-off'' =
     Inr (Some [(''England'', ''gymA'', ''w1-6'', Fin 1), (''England'', ''gymB'', ''w1-6'', Fin 1),
                (''England'', ''gymA'', ''w7'', Fin 1), (''England'', ''gymB'', ''w7'', NaN)])
   \<and> distinct (map (\<lambda>r. (kickoff_key r, week r)) (filter (at_kickoff 20) gym_b_misses_match_day))
   \<and> card (weeks_of (filter (at_kickoff 20) gym_b_misses_match_day)) = 7
   \<and> sample ''England'' ''gymB'' 1 20 0 50 \<in> set gym_b_misses_match_day
   \<and> at_kickoff 20 (sample ''England'' ''gymB'' 1 20 0 50)
   \<and> Max (weeks_of (filter (at_kickoff 20) gym_b_misses_match_day)) = 7
   \<and> filter (\<lambda>x. at_kickoff 20 x \<and> country x = ''England'' \<and> gym x = ''gymB'' \<and> week x = 7)
        gym_b_misses_match_day = []
   \<and> (''England'', ''gymB'', ''w7'', NaN)
       \<in> set [(''England'', ''gymA'', ''w1-6'', Fin 1), (''England'', ''gymB'', ''w1-6'', Fin 1),
              (''England'', ''gymA'', ''w7'', Fin 1), (''England'', ''gymB'', ''w7'', NaN)]
   \<and> filter (\<lambda>x. at_kickoff 20 x \<and> gym x = ''gymC'') gym_b_misses_match_day = []
   \<and> (0::int) \<le> 20 \<and> (20::int) < 24
   \<and> prep_data_stats (constant_facility ''England'' ''gymA'') 20 False ''kick-off'' =
       Inr (Some [(''England'', ''gymA'', ''w1-6'', Fin 50), (''England'', ''gymA'', ''w7'', Fin 50)])"
proof -
  have run: "prep_data_stats gym_b_misses_match_day 20 True ''kick-off'' =
     Inr (Some [(''England'', ''gymA'', ''w1-6'', Fin 1), (''England'', ''gymB'', ''w1-6'', Fin 1),
                (''England'', ''gymA'', ''w7'', Fin 1), (''England'', ''gymB'', ''w7'', NaN)])"
    by code_simp
  have dist: "distinct (map (\<lambda>r. (kickoff_key r, week r))
      (filter (at_kickoff 20) gym_b_misses_match_day))"
    by code_simp
  have seven: "card (weeks_of (filter (at_kickoff 20) gym_b_misses_match_day)) = 7"
    by code_simp
  have x: "sample ''England'' ''gymB'' 1 20 0 50 \<in> set gym_b_misses_match_day"
    by (simp add: gym_b_misses_match_day_def at_eight_def)
  have atx: "at_kickoff 20 (sample ''England'' ''gymB'' 1 20 0 50)"
    by (simp add: at_kickoff_sample)
  have mx: "Max (weeks_of (filter (at_kickoff 20) gym_b_misses_match_day)) = 7"
    by code_simp
  have nob: "filter (\<lambda>x. at_kickoff 20 x \<and> country x = ''England'' \<and> gym x = ''gymB'' \<and> week x = 7)
        gym_b_misses_match_day = []"
    by code_simp
  have noc: "filter (\<lambda>x. at_kickoff 20 x \<and> gym x = ''gymC'') gym_b_misses_match_day = []"
    by code_simp
  have hr: "(0::int) \<le> 20 \<and> (20::int) < 24" by simp
  note T = kickoff_exact_samples_only [of gym_b_misses_match_day 20 True
        "[(''England'', ''gymA'', ''w1-6'', Fin 1), (''England'', ''gymB'', ''w1-6'', Fin 1),
          (''England'', ''gymA'', ''w7'', Fin 1), (''England'', ''gymB'', ''w7'', NaN)]"
        20 "''England''" "''gymA''"]
  have idem: "prep_data_stats (filter (at_kickoff 20) gym_b_misses_match_day) 20 True ''kick-off'' =
     Inr (Some [(''England'', ''gymA'', ''w1-6'', Fin 1), (''England'', ''gymB'', ''w1-6'', Fin 1),
                (''England'', ''gymA'', ''w7'', Fin 1), (''England'', ''gymB'', ''w7'', NaN)])"
    using T [THEN conjunct1] run by simp
  have none: "\<not> (\<exists>y\<in>set gym_b_misses_match_day. at_kickoff 20 y
        \<and> country y = country (sample ''England'' ''gymB'' 1 20 0 50)
        \<and> gym y = gym (sample ''England'' ''gymB'' 1 20 0 50)
        \<and> week y = Max (weeks_of (filter (at_kickoff 20) gym_b_misses_match_day)))"
    using nob unfolding mx by (simp add: filter_empty_conv week_sample)
  have rows: "\<forall>x\<in>set gym_b_misses_match_day.
            at_kickoff 20 x
            \<and> \<not> (\<exists>y\<in>set gym_b_misses_match_day. at_kickoff 20 y \<and> country y = country x
                    \<and> gym y = gym x
                    \<and> week y = Max (weeks_of (filter (at_kickoff 20) gym_b_misses_match_day)))
            \<longrightarrow> (country x, gym x, ''w7'', NaN)
                 \<in> set [(''England'', ''gymA'', ''w1-6'', Fin 1), (''England'', ''gymB'', ''w1-6'', Fin 1),
                        (''England'', ''gymA'', ''w7'', Fin 1), (''England'', ''gymB'', ''w7'', NaN)]"
    using T [THEN conjunct2, THEN conjunct2, THEN conjunct1, THEN mp, OF run]
    by (rule conjunct2 [THEN conjunct2, THEN conjunct1])
  have mem: "(''England'', ''gymB'', ''w7'', NaN)
       \<in> set [(''England'', ''gymA'', ''w1-6'', Fin 1), (''England'', ''gymB'', ''w1-6'', Fin 1),
              (''England'', ''gymA'', ''w7'', Fin 1), (''England'', ''gymB'', ''w7'', NaN)]"
    using rows [THEN bspec, OF x, THEN mp, OF conjI [OF atx none]]
    by (simp only: week_sample)
  have ex: "prep_data_stats (constant_facility ''England'' ''gymA'') 20 False ''kick-off'' =
       Inr (Some [(''England'', ''gymA'', ''w1-6'', Fin 50), (''England'', ''gymA'', ''w7'', Fin 50)])"
    using T [THEN conjunct2, THEN conjunct2, THEN conjunct2, THEN mp, OF hr] .
  show ?thesis
    using run idem dist seven x atx mx nob mem noc hr ex by (intro conjI) simp_all
qed

subsection \<open>Countries without a baseline (lines 98 to 102)\<close>

text \<open>
  Against C8 as stated: with a Welsh gym in the frame and \<open>norm\<close> set, the call raises
  nothing; the rows of Wales carry NaN.
\<close>

theorem unknown_country_silently_missing:
  "prep_data_stats england_and_wales 20 True ''kick-off'' =
     Inr (Some [(''England'', ''gymA'', ''w1-6'', Fin 1), (''Wales'', ''gymC'', ''w1-6'', NaN),
                (''England'', ''gymA'', ''w7'', Fin 1), (''Wales'', ''gymC'', ''w7'', NaN)])"
  by code_simp

text \<open>
  C8, amended: when \<open>norm\<close> is set, a country other than England and Scotland is not
  rejected: the call fails exactly when it fails without normalisation. The values of such
  a country are silently missing: in the kick-off branch each of its rows has the value
  NaN; in the AUC branch the integral of its NaN cells is NaN, or 0.0 for a gym with a
  single time of day.
\<close>

theorem unknown_country_missing:
  "(prep_data_stats df kickoff True ''kick-off'' = Inr (Some out) \<longrightarrow>
      (\<forall>r\<in>set out. row_country r \<noteq> ''England'' \<and> row_country r \<noteq> ''Scotland''
          \<longrightarrow> row_value r = NaN))
   \<and> (prep_data_stats df kickoff True ''auc'' = Inr (Some out') \<longrightarrow>
      (\<forall>r\<in>set out'. row_country r \<noteq> ''England'' \<and> row_country r \<noteq> ''Scotland''
          \<longrightarrow> row_value r =
                (if card (times_of df (row_country r) (row_gym r)) < 2 then Fin 0 else NaN)))
   \<and> ((\<exists>e. prep_data_stats df kickoff True metric = Inl e)
        \<longleftrightarrow> (\<exists>e. prep_data_stats df kickoff False metric = Inl e))"
  using kickoff_unknown_country [of df kickoff out] auc_unknown_country [of df kickoff out']
    prep_data_stats_norm_same_failure [of df kickoff metric]
  by blast

text \<open>
  Wales at kick-off, and in the AUC branch, where the gym has one time of day; a frame of
  six weeks fails with and without normalisation.
\<close>

theorem unknown_country_missing_witness:
  "prep_data_stats empty_gym_and_wales 20 True ''kick-off'' =
     Inr (Some [(''England'', ''gymA'', ''w1-6'', NaN), (''Wales'', ''gymC'', ''w1-6'', NaN),
                (''England'', ''gymA'', ''w7'', NaN), (''Wales'', ''gymC'', ''w7'', NaN)])
   \<and> prep_data_stats empty_gym_and_wales 20 True ''auc'' =
     Inr (Some [(''England'', ''gymA'', ''w1-6'', Fin 0), (''Wales'', ''gymC'', ''w1-6'', Fin 0),
                (''England'', ''gymA'', ''w7'', Fin 0), (''Wales'', ''gymC'', ''w7'', Fin 0)])
   \<and> row_country (''Wales'', ''gymC'', ''w7'', NaN) \<noteq> ''England''
   \<and> row_country (''Wales'', ''gymC'', ''w7'', NaN) \<noteq> ''Scotland''
   \<and> row_value (''Wales'', ''gymC'', ''w7'', NaN) = NaN
   \<and> card (times_of empty_gym_and_wales ''Wales'' ''gymC'') = 1
   \<and> row_value (''Wales'', ''gymC'', ''w7'', Fin 0) = Fin 0
   \<and> prep_data_stats six_weeks_only 20 True ''auc'' = Inl ValueError_length_mismatch
   \<and> prep_data_stats six_weeks_only 20 False ''auc'' = Inl ValueError_length_mismatch"
proof -
  have k: "prep_data_stats empty_gym_and_wales 20 True ''kick-off'' =
     Inr (Some [(''England'', ''gymA'', ''w1-6'', NaN), (''Wales'', ''gymC'', ''w1-6'', NaN),
                (''England'', ''gymA'', ''w7'', NaN), (''Wales'', ''gymC'', ''w7'', NaN)])"
    by code_simp
  have a: "prep_data_stats empty_gym_and_wales 20 True ''auc'' =
     Inr (Some [(''England'', ''gymA'', ''w1-6'', Fin 0), (''Wales'', ''gymC'', ''w1-6'', Fin 0),
                (''England'', ''gymA'', ''w7'', Fin 0), (''Wales'', ''gymC'', ''w7'', Fin 0)])"
    by code_simp
  have t: "card (times_of empty_gym_and_wales ''Wales'' ''gymC'') = 1"
    by code_simp
  have f: "prep_data_stats six_weeks_only 20 True ''auc'' = Inl ValueError_length_mismatch"
    "prep_data_stats six_weeks_only 20 False ''auc'' = Inl ValueError_length_mismatch"
    by code_simp+
  have c: "row_country (''Wales'', ''gymC'', ''w7'', NaN) \<noteq> ''England''"
    "row_country (''Wales'', ''gymC'', ''w7'', NaN) \<noteq> ''Scotland''"
    by (simp_all add: row_country_def)
  show ?thesis
    using unknown_country_missing [of empty_gym_and_wales 20
        "[(''England'', ''gymA'', ''w1-6'', NaN), (''Wales'', ''gymC'', ''w1-6'', NaN),
          (''England'', ''gymA'', ''w7'', NaN), (''Wales'', ''gymC'', ''w7'', NaN)]"
        "[(''England'', ''gymA'', ''w1-6'', Fin 0), (''Wales'', ''gymC'', ''w1-6'', Fin 0),
          (''England'', ''gymA'', ''w7'', Fin 0), (''Wales'', ''gymC'', ''w7'', Fin 0)]"
        "''auc''"]
      unknown_country_missing [of six_weeks_only 20 "[]" "[]" "''auc''"] k a t f c
    by (simp add: row_value_def)
qed

subsection \<open>The order of the AUC rows (lines 137 to 142)\<close>

text \<open>
  C9: whenever the AUC branch returns a frame, its rows are sorted by week label and then
  by gym. The result is a function of the frame and the parameters, so equal inputs give
  equal outputs.
\<close>

theorem prep_data_stats_sorted:
  "prep_data_stats df kickoff norm_flag ''auc'' = Inr (Some out) \<Longrightarrow>
     sorted (map (\<lambda>r. (row_week r, row_gym r)) out)"
  by (auto simp: prep_data_stats_def sort_values_def split: sum.splits)

text \<open>
  The groups come out ordered by country, gym and label; the sort puts the two \<open>w1-6\<close>
  rows first.
\<close>

theorem prep_data_stats_sorted_witness:
  "prep_data_stats one_and_two_samples 20 False ''auc'' =
     Inr (Some [(''England'', ''gymA'', ''w1-6'', Fin 50), (''Scotland'', ''gymB'', ''w1-6'', Fin 0),
                (''England'', ''gymA'', ''w7'', Fin 50), (''Scotland'', ''gymB'', ''w7'', Fin 0)])
   \<and> sorted (map (\<lambda>r. (row_week r, row_gym r))
        [(''England'', ''gymA'', ''w1-6'', Fin 50), (''Scotland'', ''gymB'', ''w1-6'', Fin 0),
         (''England'', ''gymA'', ''w7'', Fin 50), (''Scotland'', ''gymB'', ''w7'', Fin 0)])
   \<and> auc_groups (to_hours (melt
        [((''England'', ''gymA'', 19, 0, 0), Fin 40, Fin 40),
         ((''England'', ''gymA'', 20, 0, 0), Fin 60, Fin 60),
         ((''Scotland'', ''gymB'', 20, 0, 0), Fin 30, Fin 30)])) =
       [(''England'', ''gymA'', ''w1-6'', Fin 50), (''England'', ''gymA'', ''w7'', Fin 50),
        (''Scotland'', ''gymB'', ''w1-6'', Fin 0), (''Scotland'', ''gymB'', ''w7'', Fin 0)]"
proof -
  have run: "prep_data_stats one_and_two_samples 20 False ''auc'' =
     Inr (Some [(''England'', ''gymA'', ''w1-6'', Fin 50), (''Scotland'', ''gymB'', ''w1-6'', Fin 0),
                (''England'', ''gymA'', ''w7'', Fin 50), (''Scotland'', ''gymB'', ''w7'', Fin 0)])"
    by code_simp
  have grouped: "auc_groups (to_hours (melt
        [((''England'', ''gymA'', 19, 0, 0), Fin 40, Fin 40),
         ((''England'', ''gymA'', 20, 0, 0), Fin 60, Fin 60),
         ((''Scotland'', ''gymB'', 20, 0, 0), Fin 30, Fin 30)])) =
       [(''England'', ''gymA'', ''w1-6'', Fin 50), (''England'', ''gymA'', ''w7'', Fin 50),
        (''Scotland'', ''gymB'', ''w1-6'', Fin 0), (''Scotland'', ''gymB'', ''w7'', Fin 0)]"
    by code_simp
  show ?thesis using prep_data_stats_sorted [OF run] run grouped by simp
qed

subsection \<open>Seven week columns (lines 82 to 95 and 109 to 123)\<close>

text \<open>
  Against C10 as stated: a frame with the week values 1 to 6 and 9 is not the set 1..7,
  and the call returns a result.
\<close>

theorem seven_weeks_not_one_to_seven:
  "prep_data_stats two_weeks_missing 20 False ''kick-off'' =
     Inr (Some [(''England'', ''gymA'', ''w1-6'', Fin 50), (''England'', ''gymA'', ''w7'', Fin 50)])
   \<and> weeks_of two_weeks_missing = {1, 2, 3, 4, 5, 6, 9}
   \<and> weeks_of two_weeks_missing \<noteq> {1..7}"
proof -
  have run: "prep_data_stats two_weeks_missing 20 False ''kick-off'' =
     Inr (Some [(''England'', ''gymA'', ''w1-6'', Fin 50), (''England'', ''gymA'', ''w7'', Fin 50)])"
    by code_simp
  have ws: "weeks_of two_weeks_missing = {1, 2, 3, 4, 5, 6, 9}"
    by (simp add: weeks_of_def two_weeks_missing_def at_eight_def sample_def)
  have "(9::int) \<notin> {1..7}" by simp
  then have "weeks_of two_weeks_missing \<noteq> {1..7}" unfolding ws by blast
  with run ws show ?thesis by simp
qed

text \<open>
  C10, amended: \<open>prep_data_stats\<close> returns a frame only when the rows that reach the
  pivot (the rows at exactly the kick-off time in the kick-off branch, all rows in the AUC
  branch) carry exactly seven distinct week values, whatever they are; with fewer or more
  the call fails with an error.
\<close>

theorem prep_data_stats_seven_weeks:
  "(prep_data_stats df kickoff norm_flag ''kick-off'' = Inr (Some out)
      \<longrightarrow> card (weeks_of (filter (at_kickoff kickoff) df)) = 7)
   \<and> (prep_data_stats df kickoff norm_flag ''auc'' = Inr (Some out') \<longrightarrow> card (weeks_of df) = 7)
   \<and> (card (weeks_of (filter (at_kickoff kickoff) df)) \<noteq> 7
      \<longrightarrow> (\<exists>e. prep_data_stats df kickoff norm_flag ''kick-off'' = Inl e))
   \<and> (card (weeks_of df) \<noteq> 7 \<longrightarrow> (\<exists>e. prep_data_stats df kickoff norm_flag ''auc'' = Inl e))"
proof -
  have k: "\<exists>e. prep_data_stats df kickoff norm_flag ''kick-off'' = Inl e"
    if "card (weeks_of (filter (at_kickoff kickoff) df)) \<noteq> 7"
    using wide_fails [OF that, of kickoff_key fst norm_flag]
    by (auto simp: prep_data_stats_def kickoff_wide_def)
  have a: "\<exists>e. prep_data_stats df kickoff norm_flag ''auc'' = Inl e"
    if "card (weeks_of df) \<noteq> 7"
    using wide_fails [OF that, of auc_key fst norm_flag]
    by (auto simp: prep_data_stats_def auc_wide_def)
  show ?thesis using k a by fastforce
qed

text \<open>
  Seven distinct weeks return in both branches; six weeks fail in both with the length
  mismatch of the column assignment.
\<close>

theorem prep_data_stats_seven_weeks_witness:
  "prep_data_stats two_weeks_missing 20 False ''kick-off'' =
     Inr (Some [(''England'', ''gymA'', ''w1-6'', Fin 50), (''England'', ''gymA'', ''w7'', Fin 50)])
   \<and> prep_data_stats two_weeks_missing 20 False ''auc'' =
     Inr (Some [(''England'', ''gymA'', ''w1-6'', Fin 0), (''England'', ''gymA'', ''w7'', Fin 0)])
   \<and> card (weeks_of (filter (at_kickoff 20) two_weeks_missing)) = 7
   \<and> card (weeks_of two_weeks_missing) = 7
   \<and> card (weeks_of (filter (at_kickoff 20) six_weeks_only)) \<noteq> 7
   \<and> card (weeks_of six_weeks_only) \<noteq> 7
   \<and> prep_data_stats six_weeks_only 20 False ''kick-off'' = Inl ValueError_length_mismatch
   \<and> prep_data_stats six_weeks_only 20 False ''auc'' = Inl ValueError_length_mismatch"
proof -
  have k: "prep_data_stats two_weeks_missing 20 False ''kick-off'' =
     Inr (Some [(''England'', ''gymA'', ''w1-6'', Fin 50), (''England'', ''gymA'', ''w7'', Fin 50)])"
    by code_simp
  have a: "prep_data_stats two_weeks_missing 20 False ''auc'' =
     Inr (Some [(''England'', ''gymA'', ''w1-6'', Fin 0), (''England'', ''gymA'', ''w7'', Fin 0)])"
    by code_simp
  have c6: "card (weeks_of (filter (at_kickoff 20) six_weeks_only)) \<noteq> 7"
    "card (weeks_of six_weeks_only) \<noteq> 7"
    by code_simp+
  have f: "prep_data_stats six_weeks_only 20 False ''kick-off'' = Inl ValueError_length_mismatch"
    "prep_data_stats six_weeks_only 20 False ''auc'' = Inl ValueError_length_mismatch"
    by code_simp+
  show ?thesis
    using prep_data_stats_seven_weeks [of two_weeks_missing 20 False
        "[(''England'', ''gymA'', ''w1-6'', Fin 50), (''England'', ''gymA'', ''w7'', Fin 50)]"
        "[(''England'', ''gymA'', ''w1-6'', Fin 0), (''England'', ''gymA'', ''w7'', Fin 0)]"]
      prep_data_stats_seven_weeks [of six_weeks_only 20 False "[]" "[]"] k a c6 f
    by simp
qed

end
